theory Spec2Isabelle
  imports Main
begin

section \<open>JavaScript values as the widget observes them\<close>

text \<open>
  The widget of \<^verbatim>\<open>web/src/giscus.ts\<close> receives dynamically typed data in two places: the
  payload of a \<^verbatim>\<open>MessageEvent\<close> and the result of \<^verbatim>\<open>JSON.parse\<close>. Strings are byte
  lists (UTF-8). A number is kept abstract: the widget only tests a number for truthiness
  and converts it to a string, so a number is given by these two observations
  (\<open>nonzero\<close> is False for 0 and NaN, \<open>numstr\<close> is the text \<^verbatim>\<open>String(n)\<close> returns).
\<close>

datatype jsvalue =
    JUndefined
  | JNull
  | JBool bool
  | JNumber (nonzero: bool) (numstr: string)
  | JString string
  | JArray "jsvalue list"
  | JObject "(string \<times> jsvalue) list"

text \<open>Truthiness, as \<^verbatim>\<open>if (v)\<close>, \<^verbatim>\<open>!v\<close> and \<^verbatim>\<open>v || w\<close> test it.\<close>

fun truthy :: "jsvalue \<Rightarrow> bool" where
  "truthy JUndefined = False"
| "truthy JNull = False"
| "truthy (JBool b) = b"
| "truthy (JNumber nz s) = nz"
| "truthy (JString s) = (s \<noteq> [])"
| "truthy (JArray xs) = True"
| "truthy (JObject ps) = True"

text \<open>\<^verbatim>\<open>typeof v === 'object'\<close>: objects, arrays and null.\<close>

fun typeof_object :: "jsvalue \<Rightarrow> bool" where
  "typeof_object JNull = True"
| "typeof_object (JArray xs) = True"
| "typeof_object (JObject ps) = True"
| "typeof_object v = False"

text \<open>
  Reading a property \<^verbatim>\<open>v.k\<close> of a value that is neither null nor undefined, for the keys
  the widget reads (\<^verbatim>\<open>giscus\<close>, \<^verbatim>\<open>resizeHeight\<close>, \<^verbatim>\<open>error\<close>): an object gives the
  property or undefined, every other value gives undefined. Reading a property of null
  throws; the handler below writes that branch out.
\<close>

fun get_prop :: "jsvalue \<Rightarrow> string \<Rightarrow> jsvalue" where
  "get_prop (JObject ps) k = (case map_of ps k of Some v \<Rightarrow> v | None \<Rightarrow> JUndefined)"
| "get_prop v k = JUndefined"

text \<open>Joining strings with a separator, as \<^verbatim>\<open>Array.prototype.join\<close> does.\<close>

fun join :: "string \<Rightarrow> string list \<Rightarrow> string" where
  "join sep [] = []"
| "join sep [x] = x"
| "join sep (x # y # ys) = x @ sep @ join sep (y # ys)"

text \<open>
  String conversion, as a template literal \<^verbatim>\<open>`${v}`\<close> and \<^verbatim>\<open>URLSearchParams\<close>
  perform it. An array joins its elements with commas, null and undefined elements
  giving the empty string.
\<close>

fun ToString :: "jsvalue \<Rightarrow> string" where
  "ToString JUndefined = ''undefined''"
| "ToString JNull = ''null''"
| "ToString (JBool b) = (if b then ''true'' else ''false'')"
| "ToString (JNumber nz s) = s"
| "ToString (JString s) = s"
| "ToString (JArray xs) =
     join '','' (map (\<lambda>x. if x = JNull \<or> x = JUndefined then [] else ToString x) xs)"
| "ToString (JObject ps) = ''[object Object]''"

text \<open>
  \<^verbatim>\<open>String.prototype.includes\<close>: the needle occurs as a contiguous block, tried at
  every start position from the left.
\<close>

fun starts_with :: "string \<Rightarrow> string \<Rightarrow> bool" where
  "starts_with s [] = True"
| "starts_with [] (n # ns) = False"
| "starts_with (c # cs) (n # ns) = (c = n \<and> starts_with cs ns)"

fun string_includes :: "string \<Rightarrow> string \<Rightarrow> bool" where
  "string_includes [] needle = (needle = [])"
| "string_includes (c # cs) needle =
     (starts_with (c # cs) needle \<or> string_includes cs needle)"

text \<open>
  \<^verbatim>\<open>message.includes(needle)\<close> on a dynamically typed message: a string searches for
  the block, an array for an element equal to the needle, and any other value has no
  \<^verbatim>\<open>includes\<close> method, so the call throws a TypeError (None).
\<close>

fun js_includes :: "jsvalue \<Rightarrow> string \<Rightarrow> bool option" where
  "js_includes (JString s) needle = Some (string_includes s needle)"
| "js_includes (JArray xs) needle = Some (list_ex (\<lambda>x. x = JString needle) xs)"
| "js_includes v needle = None"


section \<open>Platform functions: URLs, query strings, JSON text\<close>

text \<open>
  The page address is held in parsed form, as the \<^verbatim>\<open>URL\<close> interface presents it:
  \<open>protocol\<close> with its colon (\<^verbatim>\<open>https:\<close>), \<open>host\<close> with the port if any,
  \<open>pathname\<close>, the list of decoded query pairs behind \<^verbatim>\<open>searchParams\<close>, and \<open>hash\<close>
  with its leading \<^verbatim>\<open>#\<close> (empty when there is no fragment).
\<close>

record url =
  protocol :: string
  host :: string
  pathname :: string
  searchParams :: "(string \<times> string) list"
  hash :: string

definition is_alnum :: "char \<Rightarrow> bool" where
  "is_alnum c =
     (let n = (of_char c :: nat)
      in (48 \<le> n \<and> n \<le> 57) \<or> (65 \<le> n \<and> n \<le> 90) \<or> (97 \<le> n \<and> n \<le> 122))"

text \<open>The class \<^verbatim>\<open>\w\<close> of a regular expression: letters, digits and the underscore.\<close>

definition is_word :: "char \<Rightarrow> bool" where
  "is_word c = (is_alnum c \<or> c = CHR ''_'')"

definition hex_digit :: "nat \<Rightarrow> char" where
  "hex_digit n = ''0123456789ABCDEF'' ! (n mod 16)"

text \<open>
  The byte serializer of \<^verbatim>\<open>application/x-www-form-urlencoded\<close>: letters, digits and
  \<^verbatim>\<open>* - . _\<close> stand for themselves, a space becomes \<^verbatim>\<open>+\<close>, every other byte is
  written as \<^verbatim>\<open>%\<close> and two upper-case hexadecimal digits.
\<close>

definition urlencode_byte :: "char \<Rightarrow> string" where
  "urlencode_byte c =
     (if is_alnum c \<or> c = CHR ''*'' \<or> c = CHR ''-'' \<or> c = CHR ''.'' \<or> c = CHR ''_'' then [c]
      else if c = CHR '' '' then ''+''
      else [CHR ''%'', hex_digit (of_char c div 16), hex_digit (of_char c mod 16)])"

definition urlencode :: "string \<Rightarrow> string" where
  "urlencode s = concat (map urlencode_byte s)"

text \<open>\<^verbatim>\<open>URLSearchParams.prototype.toString\<close>: \<^verbatim>\<open>name=value\<close> pairs joined by \<^verbatim>\<open>&\<close>.\<close>

definition URLSearchParams_toString :: "(string \<times> string) list \<Rightarrow> string" where
  "URLSearchParams_toString ps =
     join ''&'' (map (\<lambda>(k, v). urlencode k @ ''='' @ urlencode v) ps)"

text \<open>\<^verbatim>\<open>searchParams.get(name)\<close>: the value of the first pair of that name, or null.\<close>

definition URLSearchParams_get :: "(string \<times> string) list \<Rightarrow> string \<Rightarrow> string option" where
  "URLSearchParams_get ps name = map_of ps name"

text \<open>\<^verbatim>\<open>searchParams.delete(name)\<close>: every pair of that name is removed.\<close>

definition URLSearchParams_delete :: "(string \<times> string) list \<Rightarrow> string \<Rightarrow> (string \<times> string) list" where
  "URLSearchParams_delete ps name = filter (\<lambda>p. fst p \<noteq> name) ps"

text \<open>\<^verbatim>\<open>url.toString()\<close>, which is also \<^verbatim>\<open>url.href\<close>.\<close>

definition URL_toString :: "url \<Rightarrow> string" where
  "URL_toString u =
     protocol u @ ''//'' @ host u @ pathname u
       @ (if searchParams u = [] then [] else ''?'' @ URLSearchParams_toString (searchParams u))
       @ hash u"

text \<open>
  \<^verbatim>\<open>JSON.stringify\<close> of a string: the text between double quotes, with the quote, the
  backslash and the control characters escaped.
\<close>

definition hex_lower :: "nat \<Rightarrow> char" where
  "hex_lower n = ''0123456789abcdef'' ! (n mod 16)"

definition json_escape :: "char \<Rightarrow> string" where
  "json_escape c =
     (let n = (of_char c :: nat) in
      if c = CHR 0x22 then [CHR 0x5C, CHR 0x22]
      else if c = CHR 0x5C then [CHR 0x5C, CHR 0x5C]
      else if n = 8 then [CHR 0x5C, CHR ''b'']
      else if n = 9 then [CHR 0x5C, CHR ''t'']
      else if n = 10 then [CHR 0x5C, CHR ''n'']
      else if n = 12 then [CHR 0x5C, CHR ''f'']
      else if n = 13 then [CHR 0x5C, CHR ''r'']
      else if n < 32 then
        [CHR 0x5C, CHR ''u'', CHR ''0'', CHR ''0'', hex_lower (n div 16), hex_lower (n mod 16)]
      else [c])"

definition JSON_stringify :: "string \<Rightarrow> string" where
  "JSON_stringify s = [CHR 0x22] @ concat (map json_escape s) @ [CHR 0x22]"

text \<open>
  \<^verbatim>\<open>JSON.parse\<close> is a parameter of the model, of type \<open>json_parser\<close>: the text to the
  parsed value (\<open>Inr\<close>), or to the message of the SyntaxError it throws (\<open>Inl\<close>). Every
  theorem about session set-up holds for any such function. The decoder below reads back
  the texts \<open>JSON_stringify\<close> writes (a string literal with the escapes above and
  \<^verbatim>\<open>\/\<close>); it is the parser at which the examples are evaluated. It reports every
  other text as a syntax error, which is what \<^verbatim>\<open>JSON.parse\<close> does on the texts the
  examples use.
\<close>

type_synonym json_parser = "string \<Rightarrow> string + jsvalue"

definition hex_value :: "char \<Rightarrow> nat option" where
  "hex_value c =
     (let n = (of_char c :: nat) in
      if 48 \<le> n \<and> n \<le> 57 then Some (n - 48)
      else if 97 \<le> n \<and> n \<le> 102 then Some (n - 87)
      else if 65 \<le> n \<and> n \<le> 70 then Some (n - 55)
      else None)"

fun json_unescape :: "string \<Rightarrow> string option" where
  "json_unescape [] = None"
| "json_unescape (c # cs) =
     (if c = CHR 0x22 then (if cs = [] then Some [] else None)
      else if c = CHR 0x5C then
        (case cs of
           [] \<Rightarrow> None
         | e # r \<Rightarrow>
             if e = CHR 0x22 \<or> e = CHR 0x5C \<or> e = CHR ''/'' then map_option ((#) e) (json_unescape r)
             else if e = CHR ''b'' then map_option ((#) (CHR 0x08)) (json_unescape r)
             else if e = CHR ''t'' then map_option ((#) (CHR 0x09)) (json_unescape r)
             else if e = CHR ''n'' then map_option ((#) (CHR 0x0A)) (json_unescape r)
             else if e = CHR ''f'' then map_option ((#) (CHR 0x0C)) (json_unescape r)
             else if e = CHR ''r'' then map_option ((#) (CHR 0x0D)) (json_unescape r)
             else if e = CHR ''u'' then
               (case r of
                  a # b # h # l # r' \<Rightarrow>
                    (if a = CHR ''0'' \<and> b = CHR ''0'' then
                       (case (hex_value h, hex_value l) of
                          (Some x, Some y) \<Rightarrow>
                            (if 16 * x + y < 128
                             then map_option ((#) (char_of (16 * x + y))) (json_unescape r')
                             else None)
                        | _ \<Rightarrow> None)
                     else None)
                | _ \<Rightarrow> None)
             else None)
      else if (of_char c :: nat) < 32 then None
      else map_option ((#) c) (json_unescape cs))"

definition JSON_parse_string :: json_parser where
  "JSON_parse_string s =
     (case s of
        [] \<Rightarrow> Inl ''Unexpected end of JSON input''
      | c # cs \<Rightarrow>
          (if c = CHR 0x22 then
             (case json_unescape cs of
                Some t \<Rightarrow> Inr (JString t)
              | None \<Rightarrow> Inl ''Unexpected token in JSON'')
           else Inl ''Unexpected token in JSON''))"


subsection \<open>Reading a query string back\<close>

text \<open>
  The parser of \<^verbatim>\<open>application/x-www-form-urlencoded\<close>, which the remote side applies
  to the query of the frame address: the text is split at every \<^verbatim>\<open>&\<close>, empty pieces
  are dropped, each piece is split at its first \<^verbatim>\<open>=\<close>, and in name and value a
  \<^verbatim>\<open>+\<close> is read as a space and \<^verbatim>\<open>%\<close> with two hexadecimal digits as a byte.
\<close>

fun split_on :: "char \<Rightarrow> string \<Rightarrow> string list" where
  "split_on c [] = [[]]"
| "split_on c (x # xs) =
     (if x = c then [] # split_on c xs
      else (case split_on c xs of
              [] \<Rightarrow> [[x]]
            | y # ys \<Rightarrow> (x # y) # ys))"

fun percent_decode :: "string \<Rightarrow> string" where
  "percent_decode [] = []"
| "percent_decode (c # cs) =
     (if c = CHR ''%'' then
        (case cs of
           h # l # r \<Rightarrow>
             (case (hex_value h, hex_value l) of
                (Some x, Some y) \<Rightarrow> char_of (16 * x + y) # percent_decode r
              | _ \<Rightarrow> c # percent_decode cs)
         | _ \<Rightarrow> c # percent_decode cs)
      else c # percent_decode cs)"

definition urldecode :: "string \<Rightarrow> string" where
  "urldecode s = percent_decode (map (\<lambda>c. if c = CHR ''+'' then CHR '' '' else c) s)"

definition urlencoded_parse :: "string \<Rightarrow> (string \<times> string) list" where
  "urlencoded_parse q =
     map (\<lambda>piece. (urldecode (takeWhile (\<lambda>c. c \<noteq> CHR ''='') piece),
                    urldecode (drop 1 (dropWhile (\<lambda>c. c \<noteq> CHR ''='') piece))))
       (filter (\<lambda>piece. piece \<noteq> []) (split_on (CHR ''&'') q))"

section \<open>The page and the widget element\<close>

text \<open>A \<^verbatim>\<open>meta\<close> element of the document: its two naming attributes and its content.\<close>

record meta =
  property_attr :: "string option"
  name_attr :: "string option"
  content :: string

text \<open>
  The embedded frame behind \<^verbatim>\<open>_iframeRef\<close>: the two attributes \<^verbatim>\<open>render\<close> binds,
  \<^verbatim>\<open>style.height\<close>, and whether the frame has a window to post to (\<^verbatim>\<open>contentWindow\<close>
  is null while the host element is out of the document).
\<close>

record frame =
  src :: string
  loading_attr :: string
  style_height :: string
  contentWindow :: bool

text \<open>The reactive properties of the element (lines 31 to 101 of the source).\<close>

record config =
  repo :: string
  repoId :: "string option"
  category :: "string option"
  categoryId :: "string option"
  mapping :: "string option"
  term_prop :: "string option"
  reactionsEnabled :: string
  emitMetadata :: string
  inputPosition :: string
  theme :: string
  lang :: string
  loading :: string

datatype level = Warn | Error

text \<open>
  The \<^verbatim>\<open>setConfig\<close> message of \<^verbatim>\<open>updateConfig\<close>. The field \<open>m_number\<close> keeps the
  operand of the unary plus in \<^verbatim>\<open>+this.getNumber()\<close>: the conversion of a string to a
  number is left uninterpreted.
\<close>

record setConfig =
  m_repo :: string
  m_repoId :: "string option"
  m_category :: "string option"
  m_categoryId :: "string option"
  m_term :: string
  m_number :: string
  m_reactionsEnabled :: bool
  m_emitMetadata :: bool
  m_inputPosition :: string
  m_theme :: string
  m_lang :: string

text \<open>
  The state the element reads and writes: the page (\<open>location\<close>, \<open>title\<close>, \<open>metas\<close>,
  \<open>localStorage\<close>, \<open>console\<close>), the element's own fields, and what Lit and the
  browser keep for it: \<open>hasUpdated\<close>, \<open>isUpdatePending\<close>, whether Lit has created the
  render root (\<open>renderRoot\<close>, which happens when the element is connected for the first
  time) and whether the element is in the document (\<open>isConnected\<close>). \<open>posted\<close> lists
  the messages handed to the frame's \<^verbatim>\<open>postMessage\<close> with their target origin;
  \<open>renders\<close> counts the times the template was rendered into the render root.
\<close>

record widget =
  location :: url
  title :: string
  metas :: "meta list"
  localStorage :: "string \<rightharpoonup> string"
  console :: "(level \<times> string) list"
  id_prop :: string
  props :: config
  session :: jsvalue
  iframe :: "frame option"
  listening :: bool
  hasUpdated :: bool
  isUpdatePending :: bool
  renderRoot :: bool
  isConnected :: bool
  posted :: "(setConfig \<times> string) list"
  renders :: nat

record MessageEvent =
  origin :: string
  data :: jsvalue

datatype error = TypeError

definition GISCUS_SESSION_KEY :: string where
  "GISCUS_SESSION_KEY = ''giscus-session''"

definition GISCUS_ORIGIN :: string where
  "GISCUS_ORIGIN = ''https://giscus.app''"

definition ERROR_SUGGESTION :: string where
  "ERROR_SUGGESTION =
     ''Please consider reporting this error at https://github.com/giscus/giscus/issues/new.''"

definition formatError :: "string \<Rightarrow> string" where
  "formatError message =
     ''[giscus] An error occurred. Error message: '' @ [CHR 0x22] @ message @ [CHR 0x22] @ ''.''"

definition console_warn :: "string \<Rightarrow> widget \<Rightarrow> widget" where
  "console_warn text st = st\<lparr>console := console st @ [(Warn, text)]\<rparr>"

definition console_error :: "string \<Rightarrow> widget \<Rightarrow> widget" where
  "console_error text st = st\<lparr>console := console st @ [(Error, text)]\<rparr>"

text \<open>\<^verbatim>\<open>v || ''\<close> on an optional string.\<close>

definition or_empty :: "string option \<Rightarrow> string" where
  "or_empty v = (case v of None \<Rightarrow> [] | Some s \<Rightarrow> s)"

subsection \<open>setupSession\<close>

definition setupSession :: "json_parser \<Rightarrow> widget \<Rightarrow> widget" where
  "setupSession JSON_parse st =
     (let url = location st;
          savedSession = localStorage st GISCUS_SESSION_KEY;
          urlSession = or_empty (URLSearchParams_get (searchParams url) ''giscus'')
      in
      if urlSession \<noteq> [] then
        st\<lparr>localStorage := (localStorage st)(GISCUS_SESSION_KEY \<mapsto> JSON_stringify urlSession),
           session := JString urlSession,
           location := url\<lparr>searchParams := URLSearchParams_delete (searchParams url) ''giscus''\<rparr>\<rparr>
      else
        (case savedSession of
           None \<Rightarrow> st
         | Some saved \<Rightarrow>
             if saved = [] then st
             else
               (case JSON_parse saved of
                  Inr v \<Rightarrow> st\<lparr>session := (if truthy v then v else JString [])\<rparr>
                | Inl e_message \<Rightarrow>
                    console_warn (formatError e_message @ '' Session has been cleared.'')
                      (st\<lparr>session := JString [],
                          localStorage := (localStorage st)(GISCUS_SESSION_KEY := None)\<rparr>))))"

subsection \<open>getTerm, getNumber, getIframeSrc\<close>

text \<open>
  \<^verbatim>\<open>document.querySelector("meta[property='og:P'],meta[name='P']")\<close>: the first meta
  element, in document order, that matches either selector; its content, or the empty
  string when there is none.
\<close>

definition getOgMetaContent :: "widget \<Rightarrow> string \<Rightarrow> string" where
  "getOgMetaContent st property =
     (case find (\<lambda>m. property_attr m = Some (''og:'' @ property) \<or> name_attr m = Some property)
             (metas st) of
        Some element \<Rightarrow> content element
      | None \<Rightarrow> [])"

text \<open>
  \<^verbatim>\<open>s.replace(/\.\w+$/, '')\<close>: the leftmost position where a dot is followed by one or
  more word characters up to the end of the string; the string is cut there.
\<close>

fun replace_extension :: "string \<Rightarrow> string" where
  "replace_extension [] = []"
| "replace_extension (c # cs) =
     (if c = CHR ''.'' \<and> cs \<noteq> [] \<and> list_all is_word cs then []
      else c # replace_extension cs)"

text \<open>
  The identifier \<^verbatim>\<open>origin\<close> in \<^verbatim>\<open>getTerm\<close> is bound neither in the method nor in the
  module (the constants of that name are local to \<^verbatim>\<open>setupSession\<close> and
  \<^verbatim>\<open>getIframeSrc\<close>), so it is the global \<^verbatim>\<open>window.origin\<close>: scheme, host and port of
  the page.
\<close>

definition window_origin :: "widget \<Rightarrow> string" where
  "window_origin st = protocol (location st) @ ''//'' @ host (location st)"

definition getTerm :: "widget \<Rightarrow> string" where
  "getTerm st =
     (let pathname_case =
            (if length (pathname (location st)) < 2 then ''index''
             else replace_extension (drop 1 (pathname (location st))))
      in
      case mapping (props st) of
        None \<Rightarrow> pathname_case
      | Some m \<Rightarrow>
          if m = ''url'' then window_origin st
          else if m = ''title'' then title st
          else if m = ''og:title'' then getOgMetaContent st ''title''
          else if m = ''specific'' then or_empty (term_prop (props st))
          else if m = ''number'' then []
          else pathname_case)"

definition getNumber :: "widget \<Rightarrow> string" where
  "getNumber st =
     (if mapping (props st) = Some ''number'' then or_empty (term_prop (props st)) else [])"

text \<open>The page address with every \<^verbatim>\<open>giscus\<close> query pair removed.\<close>

definition cleaned_url :: "url \<Rightarrow> url" where
  "cleaned_url u = u\<lparr>searchParams := URLSearchParams_delete (searchParams u) ''giscus''\<rparr>"

definition iframe_params :: "widget \<Rightarrow> (string \<times> string) list" where
  "iframe_params st =
     (let url = cleaned_url (location st);
          origin = URL_toString url @ (if id_prop st \<noteq> [] then ''#'' @ id_prop st else []);
          description = getOgMetaContent st ''description''
      in
      [(''origin'', origin),
       (''session'', ToString (session st)),
       (''repo'', repo (props st)),
       (''repoId'', or_empty (repoId (props st))),
       (''category'', or_empty (category (props st))),
       (''categoryId'', or_empty (categoryId (props st))),
       (''term'', getTerm st),
       (''number'', getNumber st),
       (''reactionsEnabled'', reactionsEnabled (props st)),
       (''emitMetadata'', emitMetadata (props st)),
       (''inputPosition'', inputPosition (props st)),
       (''theme'', theme (props st)),
       (''description'', description)])"

definition getIframeSrc :: "widget \<Rightarrow> string" where
  "getIframeSrc st =
     (let params = iframe_params st;
          locale = (if lang (props st) \<noteq> [] then ''/'' @ lang (props st) else []);
          query = URLSearchParams_toString params
      in GISCUS_ORIGIN @ locale @ ''/widget?'' @ query)"


subsection \<open>Rendering and configuration updates\<close>

text \<open>\<^verbatim>\<open>render\<close>: the frame's source address and its loading attribute.\<close>

definition render :: "widget \<Rightarrow> string \<times> string" where
  "render st = (getIframeSrc st, loading (props st))"

text \<open>
  A method that can throw returns the state it leaves behind; when a TypeError escapes it,
  the state reached at the throw comes with the error (\<open>Inl\<close>).
\<close>

type_synonym outcome = "(error \<times> widget) + widget"

definition final_state :: "outcome \<Rightarrow> widget" where
  "final_state r = (case r of Inl (e, st) \<Rightarrow> st | Inr st \<Rightarrow> st)"

text \<open>
  Lit is a dependency of the repository, so its part is written down here as the element
  relies on it.

  \<open>update\<close> is \<^verbatim>\<open>LitElement.update\<close>: it calls \<^verbatim>\<open>render\<close>, marks the element
  as updated (no update is pending any more) and then renders the template into the render
  root. Without a render root, that is on an element that was never connected, the last
  step throws a TypeError. With one, the first rendering creates the frame (it has a
  window when the element is in the document), and a later one rewrites the two bound
  attributes of the frame that is there (a new \<^verbatim>\<open>src\<close> makes the frame load that
  address).

  \<open>super_requestUpdate\<close> schedules an update. \<open>performUpdate\<close> is the scheduled
  update: Lit holds it back until the element has been connected, skips it when no update
  is pending any more, and sets \<open>hasUpdated\<close> after it.
\<close>

definition update :: "widget \<Rightarrow> outcome" where
  "update st =
     (let (s, l) = render st;
          marked = st\<lparr>isUpdatePending := False\<rparr>
      in
      if \<not> renderRoot st then Inl (TypeError, marked)
      else
        Inr (marked\<lparr>iframe :=
                    Some (case iframe st of
                            None \<Rightarrow> \<lparr>src = s, loading_attr = l, style_height = [],
                                     contentWindow = isConnected st\<rparr>
                          | Some f \<Rightarrow> f\<lparr>src := s, loading_attr := l\<rparr>),
                  renders := Suc (renders st)\<rparr>))"

definition super_requestUpdate :: "widget \<Rightarrow> widget" where
  "super_requestUpdate st = st\<lparr>isUpdatePending := True\<rparr>"

definition performUpdate :: "widget \<Rightarrow> widget" where
  "performUpdate st =
     (if isUpdatePending st \<and> renderRoot st then
        (case update st of
           Inr st' \<Rightarrow> st'\<lparr>hasUpdated := True\<rparr>
         | Inl (e, st') \<Rightarrow> st')
      else st)"

text \<open>
  \<^verbatim>\<open>this.iframeRef?.contentWindow?.postMessage({ giscus: message }, GISCUS_ORIGIN)\<close>:
  nothing is posted without a frame or without its window.
\<close>

definition sendMessage :: "setConfig \<Rightarrow> widget \<Rightarrow> widget" where
  "sendMessage message st =
     (case iframe st of
        None \<Rightarrow> st
      | Some f \<Rightarrow>
          if contentWindow f then st\<lparr>posted := posted st @ [(message, GISCUS_ORIGIN)]\<rparr>
          else st)"

definition setConfig_message :: "widget \<Rightarrow> setConfig" where
  "setConfig_message st =
     \<lparr>m_repo = repo (props st),
      m_repoId = repoId (props st),
      m_category = category (props st),
      m_categoryId = categoryId (props st),
      m_term = getTerm st,
      m_number = getNumber st,
      m_reactionsEnabled = (reactionsEnabled (props st) = ''1''),
      m_emitMetadata = (emitMetadata (props st) = ''1''),
      m_inputPosition = inputPosition (props st),
      m_theme = theme (props st),
      m_lang = lang (props st)\<rparr>"

definition updateConfig :: "widget \<Rightarrow> widget" where
  "updateConfig st = sendMessage (setConfig_message st) st"

definition requestUpdate :: "widget \<Rightarrow> widget" where
  "requestUpdate st =
     (if \<not> hasUpdated st then super_requestUpdate st
      else updateConfig st)"

subsection \<open>handleMessageEvent\<close>

text \<open>
  \<^verbatim>\<open>message.includes('Bad credentials') || message.includes('Invalid state value')\<close>.
\<close>

definition auth_failure :: "jsvalue \<Rightarrow> bool option" where
  "auth_failure message =
     (case js_includes message ''Bad credentials'' of
        None \<Rightarrow> None
      | Some b \<Rightarrow> if b then Some True else js_includes message ''Invalid state value'')"

text \<open>Lines 185 to 192: the two ways the handler ends for an error it does not recover from.\<close>

definition report_error :: "jsvalue \<Rightarrow> widget \<Rightarrow> outcome" where
  "report_error message st =
     (case js_includes message ''Discussion not found'' of
        None \<Rightarrow> Inl (TypeError, st)
      | Some found \<Rightarrow>
          if found then
            Inr (console_warn
                   (''[giscus] '' @ ToString message
                      @ ''. A new discussion will be created if a comment/reaction is submitted.'') st)
          else
            Inr (console_error (formatError (ToString message) @ '' '' @ ERROR_SUGGESTION) st))"

text \<open>
  Lines 156 to 158: the height step. \<open>giscus\<close> is the value under the tag
  \<^verbatim>\<open>data.giscus\<close>.
\<close>

definition resize_frame :: "jsvalue \<Rightarrow> widget \<Rightarrow> widget" where
  "resize_frame giscus st =
     (case iframe st of
        None \<Rightarrow> st
      | Some f \<Rightarrow>
          if truthy (get_prop giscus ''resizeHeight'') then
            st\<lparr>iframe :=
                 Some (f\<lparr>style_height := ToString (get_prop giscus ''resizeHeight'') @ ''px''\<rparr>)\<rparr>
          else st)"

text \<open>Lines 162 to 192: what the handler does with a truthy \<^verbatim>\<open>data.giscus.error\<close>.\<close>

definition handle_error :: "jsvalue \<Rightarrow> widget \<Rightarrow> outcome" where
  "handle_error message st =
     (case auth_failure message of
        None \<Rightarrow> Inl (TypeError, st)
      | Some auth \<Rightarrow>
          if auth then
            (if localStorage st GISCUS_SESSION_KEY \<noteq> None then
               update
                 (console_warn
                    (formatError (ToString message) @ '' Session has been cleared.'')
                    (st\<lparr>localStorage := (localStorage st)(GISCUS_SESSION_KEY := None),
                        session := JString []\<rparr>))
             else
               report_error message
                 (console_error
                    (formatError (ToString message) @ '' No session is stored initially. ''
                       @ ERROR_SUGGESTION) st))
          else report_error message st)"

definition handleMessageEvent :: "widget \<Rightarrow> MessageEvent \<Rightarrow> outcome" where
  "handleMessageEvent st event =
     (if origin event \<noteq> GISCUS_ORIGIN then Inr st
      else if \<not> typeof_object (data event) then Inr st
      else if data event = JNull then Inl (TypeError, st)
      else
        (let giscus = get_prop (data event) ''giscus'' in
         if \<not> truthy giscus then Inr st
         else
           (let st1 = resize_frame giscus st;
                message = get_prop giscus ''error''
            in
            if \<not> truthy message then Inr st1
            else handle_error message st1)))"

subsection \<open>The life of the element\<close>

text \<open>
  The constructor: Lit's own constructor requests the first update, then the session is
  set up and the page-wide listener installed.
\<close>

definition constructor :: "json_parser \<Rightarrow> widget \<Rightarrow> widget" where
  "constructor JSON_parse st = (setupSession JSON_parse (requestUpdate st))\<lparr>listening := True\<rparr>"

text \<open>
  \<^verbatim>\<open>connectedCallback\<close> only calls Lit's, which creates the render root and lets
  scheduled updates run. \<^verbatim>\<open>disconnectedCallback\<close> removes the listener; nothing puts
  it back when the element is connected again.
\<close>

definition connectedCallback :: "widget \<Rightarrow> widget" where
  "connectedCallback st = st\<lparr>renderRoot := True\<rparr>"

definition disconnectedCallback :: "widget \<Rightarrow> widget" where
  "disconnectedCallback st = st\<lparr>listening := False\<rparr>"

text \<open>
  What the browser does when the element enters or leaves the document: a frame in the
  document has a window, a frame outside has none.
\<close>

definition attach :: "widget \<Rightarrow> widget" where
  "attach st =
     st\<lparr>isConnected := True,
        iframe := map_option (\<lambda>f. f\<lparr>contentWindow := True\<rparr>) (iframe st)\<rparr>"

definition detach :: "widget \<Rightarrow> widget" where
  "detach st =
     st\<lparr>isConnected := False,
        iframe := map_option (\<lambda>f. f\<lparr>contentWindow := False\<rparr>) (iframe st)\<rparr>"

text \<open>
  The events that reach the element: it is put into the document, a property is written
  (Lit's setter stores the value and calls \<^verbatim>\<open>requestUpdate\<close>), a message arrives at
  the window, a scheduled update runs, the element is removed from the document.
\<close>

datatype event =
    Connect
  | SetProps config
  | Message MessageEvent
  | PerformUpdate
  | Disconnect

fun step :: "event \<Rightarrow> widget \<Rightarrow> widget" where
  "step Connect st = connectedCallback (attach st)"
| "step (SetProps c) st = requestUpdate (st\<lparr>props := c\<rparr>)"
| "step (Message ev) st = (if listening st then final_state (handleMessageEvent st ev) else st)"
| "step PerformUpdate st = performUpdate st"
| "step Disconnect st = disconnectedCallback (detach st)"

text \<open>A widget object before its constructor has run: the field initialisers of the class.\<close>

definition fresh :: "widget \<Rightarrow> bool" where
  "fresh st =
     (session st = JString [] \<and> iframe st = None \<and> \<not> listening st \<and> \<not> hasUpdated st
      \<and> \<not> isUpdatePending st \<and> \<not> renderRoot st \<and> \<not> isConnected st
      \<and> posted st = [] \<and> renders st = 0)"

inductive reachable :: "json_parser \<Rightarrow> widget \<Rightarrow> bool" for JSON_parse :: json_parser where
  constructed: "fresh st \<Longrightarrow> reachable JSON_parse (constructor JSON_parse st)"
| stepped: "reachable JSON_parse st \<Longrightarrow> reachable JSON_parse (step e st)"

section \<open>The specification's reading of the pathname term\<close>

text \<open>
  The specification describes the pathname term as the pathname "with any trailing file
  extension stripped". Read from the end of the string: the longest run of word
  characters at the end is an extension when it is not empty and a dot stands before it.
\<close>

definition strip_trailing_extension :: "string \<Rightarrow> string" where
  "strip_trailing_extension s =
     (let ext = rev (takeWhile is_word (rev s));
          stem = rev (dropWhile is_word (rev s))
      in if ext \<noteq> [] \<and> stem \<noteq> [] \<and> last stem = CHR ''.'' then butlast stem else s)"

text \<open>
  The mapping modes that reach the last branch of the \<^verbatim>\<open>switch\<close> in \<^verbatim>\<open>getTerm\<close>:
  \<^verbatim>\<open>pathname\<close>, no mode at all, and every mode the switch does not name.
\<close>

definition pathname_mode :: "string option \<Rightarrow> bool" where
  "pathname_mode m =
     (m \<noteq> Some ''url'' \<and> m \<noteq> Some ''title'' \<and> m \<noteq> Some ''og:title''
      \<and> m \<noteq> Some ''specific'' \<and> m \<noteq> Some ''number'')"

section \<open>Vocabulary for the message handler\<close>

text \<open>
  A payload carries the giscus tag when it is an object whose \<^verbatim>\<open>giscus\<close> property is
  truthy; an event is accepted when it comes from the trusted origin with such a payload.
  \<open>tagged\<close> is the value under the tag.
\<close>

definition carries_giscus :: "jsvalue \<Rightarrow> bool" where
  "carries_giscus d = (typeof_object d \<and> truthy (get_prop d ''giscus''))"

definition accepted :: "MessageEvent \<Rightarrow> bool" where
  "accepted ev = (origin ev = GISCUS_ORIGIN \<and> carries_giscus (data ev))"

definition tagged :: "MessageEvent \<Rightarrow> jsvalue" where
  "tagged ev = get_prop (data ev) ''giscus''"

text \<open>The height of the frame; the empty string when there is no frame or no height was set.\<close>

definition frame_height :: "widget \<Rightarrow> string" where
  "frame_height st = (case iframe st of None \<Rightarrow> [] | Some f \<Rightarrow> style_height f)"

text \<open>The error strings the handler takes for an authentication failure.\<close>

definition auth_error :: "string \<Rightarrow> bool" where
  "auth_error msg =
     (string_includes msg ''Bad credentials'' \<or> string_includes msg ''Invalid state value'')"

text \<open>
  The session-invalidation path of the handler: an accepted event whose error is an
  authentication failure, while a token is stored.
\<close>

definition invalidates :: "widget \<Rightarrow> MessageEvent \<Rightarrow> bool" where
  "invalidates st ev =
     (accepted ev \<and> truthy (get_prop (tagged ev) ''error'')
      \<and> auth_failure (get_prop (tagged ev) ''error'') = Some True
      \<and> localStorage st GISCUS_SESSION_KEY \<noteq> None)"

text \<open>The element has rendered and its frame has a window to post to.\<close>

definition attached :: "widget \<Rightarrow> bool" where
  "attached st =
     (hasUpdated st \<and> (case iframe st of None \<Rightarrow> False | Some f \<Rightarrow> contentWindow f))"

section \<open>Example pages, widgets and events\<close>

text \<open>
  The configuration of the specification's example, \<^verbatim>\<open>{repo: "a/b", theme: "dark", lang: "fr"}\<close>,
  every other property at the default of the class.
\<close>

definition example_config :: config where
  "example_config =
     \<lparr>repo = ''a/b'', repoId = None, category = None, categoryId = None, mapping = None,
      term_prop = None, reactionsEnabled = ''1'', emitMetadata = ''0'',
      inputPosition = ''bottom'', theme = ''dark'', lang = ''fr'', loading = ''eager''\<rparr>"

text \<open>
  A page at \<^verbatim>\<open>https://example.com/posts/a.html?giscus=XYZ\<close> with an empty storage, and
  a widget object on it whose constructor has not run yet.
\<close>

definition example_page :: widget where
  "example_page =
     \<lparr>location = \<lparr>protocol = ''https:'', host = ''example.com'', pathname = ''/posts/a.html'',
                   searchParams = [(''giscus'', ''XYZ'')], hash = []\<rparr>,
      title = ''A post'',
      metas = [\<lparr>property_attr = Some ''og:title'', name_attr = None, content = ''A post on giscus''\<rparr>],
      localStorage = Map.empty,
      console = [],
      id_prop = [],
      props = example_config,
      session = JString [],
      iframe = None,
      listening = False,
      hasUpdated = False,
      isUpdatePending = False,
      renderRoot = False,
      isConnected = False,
      posted = [],
      renders = 0\<rparr>"

text \<open>The same site at its root, \<^verbatim>\<open>https://example.com/\<close>.\<close>

definition root_page :: widget where
  "root_page = example_page\<lparr>location := (location example_page)\<lparr>pathname := ''/'', searchParams := []\<rparr>\<rparr>"

text \<open>The example page with the mapping mode \<^verbatim>\<open>url\<close>.\<close>

definition url_page :: widget where
  "url_page = example_page\<lparr>props := example_config\<lparr>mapping := Some ''url''\<rparr>\<rparr>"

text \<open>
  Three more pages for session set-up: \<^verbatim>\<open>?giscus=\<close> with an empty value over a stored
  token, a stored value that is no JSON text, and a stored empty string.
\<close>

definition empty_param_page :: widget where
  "empty_param_page =
     example_page\<lparr>location := (location example_page)\<lparr>searchParams := [(''giscus'', [])]\<rparr>,
                  localStorage := [GISCUS_SESSION_KEY \<mapsto> JSON_stringify ''OLD'']\<rparr>"

definition corrupt_page :: widget where
  "corrupt_page =
     example_page\<lparr>location := (location example_page)\<lparr>searchParams := []\<rparr>,
                  localStorage := [GISCUS_SESSION_KEY \<mapsto> ''{broken'']\<rparr>"

definition empty_saved_page :: widget where
  "empty_saved_page =
     example_page\<lparr>location := (location example_page)\<lparr>searchParams := []\<rparr>,
                  localStorage := [GISCUS_SESSION_KEY \<mapsto> []]\<rparr>"

text \<open>
  Message events: a resize to 600 pixels, a resize to 0, two authentication failures (the
  second also names a missing discussion), a message from another origin, and a message
  from the trusted origin whose payload is a string.
\<close>

definition resize_event :: MessageEvent where
  "resize_event =
     \<lparr>origin = GISCUS_ORIGIN,
      data = JObject [(''giscus'', JObject [(''resizeHeight'', JNumber True ''600'')])]\<rparr>"

definition zero_height_event :: MessageEvent where
  "zero_height_event =
     \<lparr>origin = GISCUS_ORIGIN,
      data = JObject [(''giscus'', JObject [(''resizeHeight'', JNumber False ''0'')])]\<rparr>"

definition bad_credentials_event :: MessageEvent where
  "bad_credentials_event =
     \<lparr>origin = GISCUS_ORIGIN,
      data = JObject [(''giscus'', JObject [(''error'', JString ''Bad credentials'')])]\<rparr>"

definition mixed_error_event :: MessageEvent where
  "mixed_error_event =
     \<lparr>origin = GISCUS_ORIGIN,
      data = JObject [(''giscus'',
               JObject [(''error'', JString ''Bad credentials. Discussion not found'')])]\<rparr>"

definition foreign_event :: MessageEvent where
  "foreign_event =
     \<lparr>origin = ''https://evil.example'',
      data = JObject [(''giscus'',
               JObject [(''resizeHeight'', JNumber True ''600''),
                        (''error'', JString ''Bad credentials'')])]\<rparr>"

definition untagged_event :: MessageEvent where
  "untagged_event = \<lparr>origin = GISCUS_ORIGIN, data = JString ''hello''\<rparr>"

text \<open>
  The widget on the example page after its constructor (it holds the token \<^verbatim>\<open>XYZ\<close>
  of the page address and was never put into the document); the same after it was
  connected; the same after its first update has run; and a widget on the root page, where no session
  exists, connected and updated.
\<close>

definition constructed_page :: widget where
  "constructed_page = constructor JSON_parse_string example_page"

definition connected_page :: widget where
  "connected_page = step Connect constructed_page"

definition rendered_page :: widget where
  "rendered_page = step PerformUpdate connected_page"

definition rendered_anonymous :: widget where
  "rendered_anonymous =
     step PerformUpdate (step Connect (constructor JSON_parse_string root_page))"

text \<open>
  The widget on the example page, connected, when a \<^verbatim>\<open>Bad credentials\<close> message is
  dispatched to the window before the scheduled first update has run: the handler renders
  the frame itself.
\<close>

definition early_invalidated_page :: widget where
  "early_invalidated_page = step (Message bad_credentials_event) connected_page"

text \<open>A message from the trusted origin whose payload is \<^verbatim>\<open>null\<close>.\<close>

definition null_event :: MessageEvent where
  "null_event = \<lparr>origin = GISCUS_ORIGIN, data = JNull\<rparr>"


section \<open>The term resolver\<close>

lemma dot_not_word: "\<not> is_word (CHR ''.'')"
  by (simp add: is_word_def is_alnum_def)

lemma replace_extension_cut:
  "ext \<noteq> [] \<Longrightarrow> list_all is_word ext \<Longrightarrow> replace_extension (base @ CHR ''.'' # ext) = base"
proof (induction base)
  case Nil
  then show ?case by simp
next
  case (Cons c base)
  have "\<not> list_all is_word (base @ CHR ''.'' # ext)"
    by (simp add: dot_not_word)
  with Cons show ?case by simp
qed

lemma replace_extension_keep:
  "(\<And>base ext. s = base @ CHR ''.'' # ext \<Longrightarrow> ext = [] \<or> \<not> list_all is_word ext)
   \<Longrightarrow> replace_extension s = s"
proof (induction s)
  case Nil
  then show ?case by simp
next
  case (Cons c s)
  have tail: "replace_extension s = s"
  proof (rule Cons.IH)
    fix base ext
    assume "s = base @ CHR ''.'' # ext"
    then have "c # s = (c # base) @ CHR ''.'' # ext" by simp
    then show "ext = [] \<or> \<not> list_all is_word ext" by (rule Cons.prems)
  qed
  have "\<not> (c = CHR ''.'' \<and> s \<noteq> [] \<and> list_all is_word s)"
    using Cons.prems [of "[]" s] by auto
  with tail show ?case by auto
qed

lemma takeWhile_block: "list_all P xs \<Longrightarrow> \<not> P y \<Longrightarrow> takeWhile P (xs @ y # ys) = xs"
  by (induction xs) auto

lemma dropWhile_block: "list_all P xs \<Longrightarrow> \<not> P y \<Longrightarrow> dropWhile P (xs @ y # ys) = y # ys"
  by (induction xs) auto

lemma word_suffix_split:
  assumes "list_all is_word ext"
  shows "takeWhile is_word (rev (base @ CHR ''.'' # ext)) = rev ext"
    and "dropWhile is_word (rev (base @ CHR ''.'' # ext)) = CHR ''.'' # rev base"
proof -
  from assms have w: "list_all is_word (rev ext)" by (simp add: list_all_iff)
  show "takeWhile is_word (rev (base @ CHR ''.'' # ext)) = rev ext"
    using takeWhile_block [OF w dot_not_word, of "rev base"] by simp
  show "dropWhile is_word (rev (base @ CHR ''.'' # ext)) = CHR ''.'' # rev base"
    using dropWhile_block [OF w dot_not_word, of "rev base"] by simp
qed

text \<open>
  The regular-expression replacement of the source, which scans from the left, computes
  what the specification describes from the right.
\<close>

lemma replace_extension_refines: "replace_extension s = strip_trailing_extension s"
proof (cases "\<exists>base ext. s = base @ CHR ''.'' # ext \<and> ext \<noteq> [] \<and> list_all is_word ext")
  case True
  then obtain base ext where s: "s = base @ CHR ''.'' # ext" and e: "ext \<noteq> []" "list_all is_word ext"
    by blast
  have t: "takeWhile is_word (rev s) = rev ext"
    and d: "dropWhile is_word (rev s) = CHR ''.'' # rev base"
    unfolding s using e(2) by (rule word_suffix_split)+
  from e have "strip_trailing_extension s = base"
    unfolding strip_trailing_extension_def Let_def t d by simp
  with e s show ?thesis by (simp add: replace_extension_cut)
next
  case False
  then have keep: "replace_extension s = s"
    by (intro replace_extension_keep) blast
  define ext where "ext = rev (takeWhile is_word (rev s))"
  define stem where "stem = rev (dropWhile is_word (rev s))"
  have split: "s = stem @ ext"
    unfolding ext_def stem_def by (metis rev_append rev_rev_ident takeWhile_dropWhile_id)
  have w: "list_all is_word ext"
    unfolding ext_def by (simp add: list_all_iff) (meson set_takeWhileD)
  have neg: "\<not> (ext \<noteq> [] \<and> stem \<noteq> [] \<and> last stem = CHR ''.'')"
  proof
    assume a: "ext \<noteq> [] \<and> stem \<noteq> [] \<and> last stem = CHR ''.''"
    then have "stem = butlast stem @ [CHR ''.'']" by (metis append_butlast_last_id)
    with split have "s = butlast stem @ CHR ''.'' # ext" by (metis append.assoc append_Cons append_Nil)
    with a w False show False by blast
  qed
  have "strip_trailing_extension s =
          (if ext \<noteq> [] \<and> stem \<noteq> [] \<and> last stem = CHR ''.'' then butlast stem else s)"
    unfolding strip_trailing_extension_def ext_def stem_def Let_def ..
  with neg have "strip_trailing_extension s = s"
    by (simp only: if_False)
  with keep show ?thesis by simp
qed

lemma getTerm_metadata_only:
  "mapping (props a) = mapping (props b) \<Longrightarrow> term_prop (props a) = term_prop (props b) \<Longrightarrow>
   location a = location b \<Longrightarrow> title a = title b \<Longrightarrow> metas a = metas b \<Longrightarrow> getTerm a = getTerm b"
  by (simp add: getTerm_def window_origin_def getOgMetaContent_def Let_def
      cong: if_cong option.case_cong)

lemma getTerm_pathname_mode:
  "pathname_mode (mapping (props st)) \<Longrightarrow>
   getTerm st =
     (if length (pathname (location st)) < 2 then ''index''
      else strip_trailing_extension (drop 1 (pathname (location st))))"
  by (simp add: getTerm_def pathname_mode_def replace_extension_refines Let_def split: option.splits)

lemma strip_posts_a_html: "strip_trailing_extension ''posts/a.html'' = ''posts/a''"
  unfolding replace_extension_refines [symmetric]
  by (simp add: is_word_def is_alnum_def)

text \<open>
  Claim C8. The term is a function of the page metadata and the mapping configuration
  alone: two widget states that agree on the mapping mode, the configured term, the page
  address, the document title and the meta elements get the same term, whatever else
  differs between them. In the mode \<^verbatim>\<open>pathname\<close>, with no mode, and in every mode
  the switch does not name, the term is \<^verbatim>\<open>index\<close> for a pathname of fewer than two
  characters, and otherwise the pathname without its leading slash and without a trailing
  file extension; so \<^verbatim>\<open>/\<close> gives \<^verbatim>\<open>index\<close> and \<^verbatim>\<open>/posts/a.html\<close> gives
  \<^verbatim>\<open>posts/a\<close>.
\<close>

theorem getTerm_deterministic_pathname:
  "(mapping (props a) = mapping (props b) \<and> term_prop (props a) = term_prop (props b)
      \<and> location a = location b \<and> title a = title b \<and> metas a = metas b
      \<longrightarrow> getTerm a = getTerm b)
   \<and> (pathname_mode (mapping (props st)) \<longrightarrow>
        getTerm st =
          (if length (pathname (location st)) < 2 then ''index''
           else strip_trailing_extension (drop 1 (pathname (location st)))))
   \<and> (pathname_mode (mapping (props st)) \<and> pathname (location st) = ''/''
        \<longrightarrow> getTerm st = ''index'')
   \<and> (pathname_mode (mapping (props st)) \<and> pathname (location st) = ''/posts/a.html''
        \<longrightarrow> getTerm st = ''posts/a'')"
proof -
  have general: "pathname_mode (mapping (props st)) \<longrightarrow>
        getTerm st =
          (if length (pathname (location st)) < 2 then ''index''
           else strip_trailing_extension (drop 1 (pathname (location st))))"
    using getTerm_pathname_mode [of st] by blast
  have root: "pathname_mode (mapping (props st)) \<and> pathname (location st) = ''/''
        \<longrightarrow> getTerm st = ''index''"
    using general by simp
  have post: "pathname_mode (mapping (props st)) \<and> pathname (location st) = ''/posts/a.html''
        \<longrightarrow> getTerm st = ''posts/a''"
    using general by (simp add: strip_posts_a_html)
  from getTerm_metadata_only [of a b] general root post show ?thesis by blast
qed

theorem getTerm_deterministic_pathname_witness:
  "pathname_mode (mapping (props root_page)) \<and> pathname (location root_page) = ''/''
   \<and> getTerm root_page = ''index''
   \<and> pathname_mode (mapping (props example_page))
   \<and> pathname (location example_page) = ''/posts/a.html''
   \<and> getTerm example_page = ''posts/a''
   \<and> getTerm (example_page\<lparr>session := JString ''XYZ'', console := [(Warn, ''w'')]\<rparr>)
       = getTerm example_page"
proof -
  have r: "pathname_mode (mapping (props root_page))" "pathname (location root_page) = ''/''"
    by (simp_all add: pathname_mode_def root_page_def example_page_def example_config_def)
  have e: "pathname_mode (mapping (props example_page))"
    "pathname (location example_page) = ''/posts/a.html''"
    by (simp_all add: pathname_mode_def example_page_def example_config_def)
  have "getTerm root_page = ''index''"
    using getTerm_deterministic_pathname [of root_page root_page root_page] r by blast
  moreover have "getTerm example_page = ''posts/a''"
    using getTerm_deterministic_pathname [of example_page example_page example_page] e by blast
  moreover have "getTerm (example_page\<lparr>session := JString ''XYZ'', console := [(Warn, ''w'')]\<rparr>)
      = getTerm example_page"
    using getTerm_deterministic_pathname
      [of "example_page\<lparr>session := JString ''XYZ'', console := [(Warn, ''w'')]\<rparr>"
          example_page example_page]
    by simp
  ultimately show ?thesis using r e by simp
qed

text \<open>
  Claim C1. In the mode \<^verbatim>\<open>url\<close> the specification wants the page address without the
  session query parameter. On the example page,
  \<^verbatim>\<open>https://example.com/posts/a.html?giscus=XYZ\<close>, that address is
  \<^verbatim>\<open>https://example.com/posts/a.html\<close>, but \<^verbatim>\<open>getTerm\<close> returns the global
  \<^verbatim>\<open>origin\<close> of the window, \<^verbatim>\<open>https://example.com\<close>: every page of a site gets the
  same term.
\<close>

theorem getTerm_url_failing_input:
  "getTerm url_page = ''https://example.com''
   \<and> URL_toString (cleaned_url (location url_page)) = ''https://example.com/posts/a.html''"
  by (simp add: url_page_def example_page_def example_config_def getTerm_def window_origin_def
      URL_toString_def cleaned_url_def URLSearchParams_delete_def Let_def)


section \<open>Session set-up\<close>

text \<open>
  The text \<open>JSON_stringify\<close> writes for a token reads back as that token: what
  \<^verbatim>\<open>setupSession\<close> stores is the JSON encoding of the token.
\<close>

lemma control_chars: "char_of (8::nat) = CHR 0x08" "char_of (9::nat) = CHR 0x09" "char_of (10::nat) = CHR 0x0A"
  "char_of (12::nat) = CHR 0x0C" "char_of (13::nat) = CHR 0x0D"
  by code_simp+

lemma hex_value_lower_all: "list_all (\<lambda>k. hex_value (hex_lower k) = Some k) [0..<16]"
  by code_simp

lemma hex_value_lower: "k < 16 \<Longrightarrow> hex_value (hex_lower k) = Some k"
  using hex_value_lower_all unfolding list_all_iff by simp


lemma json_unescape_escape:
  "json_unescape (json_escape c @ rest) = map_option ((#) c) (json_unescape rest)"
proof -
  define n where "n = (of_char c :: nat)"
  have c: "c = char_of n" by (simp add: n_def)
  consider "c = CHR 0x22" | "c = CHR 0x5C" | "n = 8" | "n = 9" | "n = 10" | "n = 12" | "n = 13"
    | "n < 32" "n \<noteq> 8" "n \<noteq> 9" "n \<noteq> 10" "n \<noteq> 12" "n \<noteq> 13"
    | "32 \<le> n" "c \<noteq> CHR 0x22" "c \<noteq> CHR 0x5C"
    by linarith
  then show ?thesis
  proof cases
    case 1
    then show ?thesis by (simp add: json_escape_def)
  next
    case 2
    then show ?thesis by (simp add: json_escape_def)
  next
    case 3
    then have "c = CHR 0x08" unfolding c by (simp only: control_chars)
    then show ?thesis by (simp add: json_escape_def)
  next
    case 4
    then have "c = CHR 0x09" unfolding c by (simp only: control_chars)
    then show ?thesis by (simp add: json_escape_def)
  next
    case 5
    then have "c = CHR 0x0A" unfolding c by (simp only: control_chars)
    then show ?thesis by (simp add: json_escape_def)
  next
    case 6
    then have "c = CHR 0x0C" unfolding c by (simp only: control_chars)
    then show ?thesis by (simp add: json_escape_def)
  next
    case 7
    then have "c = CHR 0x0D" unfolding c by (simp only: control_chars)
    then show ?thesis by (simp add: json_escape_def)
  next
    case 8
    have q: "c \<noteq> CHR 0x22" "c \<noteq> CHR 0x5C" using 8(1) unfolding n_def by auto
    have esc: "json_escape c =
        [CHR 0x5C, CHR ''u'', CHR ''0'', CHR ''0'', hex_lower (n div 16), hex_lower (n mod 16)]"
      using 8 q by (simp add: json_escape_def n_def [symmetric] Let_def)
    have hv: "hex_value (hex_lower (n div 16)) = Some (n div 16)"
      "hex_value (hex_lower (n mod 16)) = Some (n mod 16)"
      using 8(1) by (simp_all add: hex_value_lower)
    have small: "16 * (n div 16) + n mod 16 < 128" using 8(1) by simp
    have again: "char_of (16 * (n div 16) + n mod 16) = c" by (simp add: n_def)
    show ?thesis unfolding esc using hv small again by simp
  next
    case 9
    then show ?thesis by (simp add: json_escape_def n_def [symmetric] Let_def)
  qed
qed


lemma json_unescape_body: "json_unescape (concat (map json_escape s) @ [CHR 0x22]) = Some s"
proof (induction s)
  case Nil
  show ?case by simp
next
  case (Cons c s)
  have "json_unescape (concat (map json_escape (c # s)) @ [CHR 0x22])
      = json_unescape (json_escape c @ (concat (map json_escape s) @ [CHR 0x22]))"
    by simp
  also have "\<dots> = map_option ((#) c) (json_unescape (concat (map json_escape s) @ [CHR 0x22]))"
    by (rule json_unescape_escape)
  finally show ?case by (simp only: Cons.IH option.map)
qed

lemma JSON_roundtrip: "JSON_parse_string (JSON_stringify s) = Inr (JString s)"
  by (simp add: JSON_parse_string_def JSON_stringify_def json_unescape_body del: json_unescape.simps)

lemma delete_get: "URLSearchParams_get (URLSearchParams_delete ps name) name = None"
  by (induction ps) (auto simp add: URLSearchParams_get_def URLSearchParams_delete_def)

text \<open>
  Claim C4, as amended. When the first \<^verbatim>\<open>giscus\<close> query parameter of the page address
  has a value that is not empty, then after \<^verbatim>\<open>setupSession\<close>, whatever was stored
  before and whatever the JSON parser is: the active token is that value, the storage key
  \<^verbatim>\<open>giscus-session\<close> holds its JSON encoding, the visible address is the old one
  without any \<^verbatim>\<open>giscus\<close> parameter, and nothing was logged.
\<close>

theorem setupSession_url_seed:
  assumes "URLSearchParams_get (searchParams (location st)) ''giscus'' = Some xyz"
    and "xyz \<noteq> []"
  shows "session (setupSession p st) = JString xyz
    \<and> localStorage (setupSession p st) GISCUS_SESSION_KEY = Some (JSON_stringify xyz)
    \<and> location (setupSession p st) = cleaned_url (location st)
    \<and> URLSearchParams_get (searchParams (location (setupSession p st))) ''giscus'' = None
    \<and> console (setupSession p st) = console st"
  using assms
  by (simp add: setupSession_def Let_def or_empty_def cleaned_url_def delete_get)

theorem setupSession_url_seed_witness:
  "URLSearchParams_get (searchParams (location example_page)) ''giscus'' = Some ''XYZ''
   \<and> session (setupSession JSON_parse_string example_page) = JString ''XYZ''
   \<and> localStorage (setupSession JSON_parse_string example_page) GISCUS_SESSION_KEY
       = Some (CHR 0x22 # ''XYZ'' @ [CHR 0x22])
   \<and> URL_toString (location (setupSession JSON_parse_string example_page))
       = ''https://example.com/posts/a.html''"
proof -
  have g: "URLSearchParams_get (searchParams (location example_page)) ''giscus'' = Some ''XYZ''"
    by (simp add: example_page_def URLSearchParams_get_def)
  have n: "''XYZ'' \<noteq> []" by simp
  have j: "JSON_stringify ''XYZ'' = CHR 0x22 # ''XYZ'' @ [CHR 0x22]"
    by (simp add: JSON_stringify_def json_escape_def)
  have u: "URL_toString (cleaned_url (location example_page)) = ''https://example.com/posts/a.html''"
    by (simp add: example_page_def cleaned_url_def URL_toString_def URLSearchParams_delete_def)
  from setupSession_url_seed [OF g n, of JSON_parse_string] g j u show ?thesis by simp
qed

text \<open>
  The claim C4 as it is written fails for the address \<^verbatim>\<open>?giscus=\<close>, whose parameter is
  present with an empty value: \<^verbatim>\<open>url.searchParams.get('giscus') || ''\<close> is falsy, the
  guard \<^verbatim>\<open>if (urlSession)\<close> is not taken, the stored token \<^verbatim>\<open>OLD\<close> stays the
  session and the parameter stays in the address.
\<close>

theorem setupSession_empty_parameter_counterexample:
  "URLSearchParams_get (searchParams (location empty_param_page)) ''giscus'' = Some []
   \<and> localStorage empty_param_page GISCUS_SESSION_KEY = Some (JSON_stringify ''OLD'')
   \<and> session (setupSession JSON_parse_string empty_param_page) = JString ''OLD''
   \<and> localStorage (setupSession JSON_parse_string empty_param_page) GISCUS_SESSION_KEY
       = Some (JSON_stringify ''OLD'')
   \<and> URLSearchParams_get (searchParams (location (setupSession JSON_parse_string empty_param_page)))
       ''giscus'' = Some []"
  by (simp add: empty_param_page_def example_page_def setupSession_def Let_def or_empty_def
      URLSearchParams_get_def GISCUS_SESSION_KEY_def JSON_stringify_def json_escape_def
      JSON_parse_string_def)

text \<open>
  Claim C7, as amended. With no session in the page address and a stored value that is not
  empty and that the JSON parser rejects, \<^verbatim>\<open>setupSession\<close> ends with an empty active
  token and without the storage key, and has logged one warning that carries the parser's
  message. The function returns a state on this path as on every other: the SyntaxError is
  caught, nothing is thrown.
\<close>

theorem setupSession_decode_failure:
  assumes "or_empty (URLSearchParams_get (searchParams (location st)) ''giscus'') = []"
    and "localStorage st GISCUS_SESSION_KEY = Some saved"
    and "saved \<noteq> []"
    and "p saved = Inl e_message"
  shows "session (setupSession p st) = JString []
    \<and> localStorage (setupSession p st) GISCUS_SESSION_KEY = None
    \<and> console (setupSession p st)
        = console st @ [(Warn, formatError e_message @ '' Session has been cleared.'')]"
  using assms
  by (simp add: setupSession_def Let_def console_warn_def)

theorem setupSession_decode_failure_witness:
  "or_empty (URLSearchParams_get (searchParams (location corrupt_page)) ''giscus'') = []
   \<and> localStorage corrupt_page GISCUS_SESSION_KEY = Some ''{broken''
   \<and> JSON_parse_string ''{broken'' = Inl ''Unexpected token in JSON''
   \<and> session (setupSession JSON_parse_string corrupt_page) = JString []
   \<and> localStorage (setupSession JSON_parse_string corrupt_page) GISCUS_SESSION_KEY = None
   \<and> console (setupSession JSON_parse_string corrupt_page)
       = [(Warn, formatError ''Unexpected token in JSON'' @ '' Session has been cleared.'')]"
proof -
  have a: "or_empty (URLSearchParams_get (searchParams (location corrupt_page)) ''giscus'') = []"
    by (simp add: corrupt_page_def example_page_def URLSearchParams_get_def or_empty_def)
  have b: "localStorage corrupt_page GISCUS_SESSION_KEY = Some ''{broken''"
    by (simp add: corrupt_page_def)
  have c: "''{broken'' \<noteq> []" by simp
  have d: "JSON_parse_string ''{broken'' = Inl ''Unexpected token in JSON''"
    by (simp add: JSON_parse_string_def)
  have e: "console corrupt_page = []"
    by (simp add: corrupt_page_def example_page_def)
  from setupSession_decode_failure [where p = JSON_parse_string, OF a b c d] a b d e show ?thesis by simp
qed

text \<open>
  The claim C7 as it is written fails for a stored empty string. \<^verbatim>\<open>JSON.parse('')\<close>
  throws, so the empty string is not valid JSON, but the guard \<^verbatim>\<open>if (savedSession)\<close>
  skips the decoding: the key stays in storage and nothing is logged.
\<close>

theorem setupSession_empty_saved_counterexample:
  "or_empty (URLSearchParams_get (searchParams (location empty_saved_page)) ''giscus'') = []
   \<and> localStorage empty_saved_page GISCUS_SESSION_KEY = Some []
   \<and> JSON_parse_string [] = Inl ''Unexpected end of JSON input''
   \<and> localStorage (setupSession JSON_parse_string empty_saved_page) GISCUS_SESSION_KEY = Some []
   \<and> console (setupSession JSON_parse_string empty_saved_page) = []"
  by (simp add: empty_saved_page_def example_page_def setupSession_def Let_def or_empty_def
      URLSearchParams_get_def JSON_parse_string_def)


section \<open>The address builder\<close>

text \<open>
  Serialising a list of query pairs and parsing the text again gives the list back: a
  serialised name or value contains neither \<^verbatim>\<open>&\<close> nor \<^verbatim>\<open>=\<close>, and decoding undoes
  the encoding byte by byte.
\<close>

lemma hex_digit_all:
  "list_all (\<lambda>k. hex_value (hex_digit k) = Some k \<and> hex_digit k \<noteq> CHR ''+''
            \<and> hex_digit k \<noteq> CHR ''&'' \<and> hex_digit k \<noteq> CHR ''='') [0..<16]"
  by code_simp

lemma hex_digit_facts:
  assumes "k < 16"
  shows "hex_value (hex_digit k) = Some k" "hex_digit k \<noteq> CHR ''+''"
    "hex_digit k \<noteq> CHR ''&''" "hex_digit k \<noteq> CHR ''=''"
  using hex_digit_all assms unfolding list_all_iff by simp_all

lemma of_char_bound: "(of_char c :: nat) < 256"
  by (rule nat_of_char_less_256)

lemma alnum_not_special:
  "is_alnum c \<Longrightarrow> c \<noteq> CHR ''%'' \<and> c \<noteq> CHR ''+'' \<and> c \<noteq> CHR ''&'' \<and> c \<noteq> CHR ''=''"
  by (auto simp add: is_alnum_def)

lemma urlencode_byte_no_separator:
  "CHR ''&'' \<notin> set (urlencode_byte c) \<and> CHR ''='' \<notin> set (urlencode_byte c)"
proof -
  have "(of_char c :: nat) div 16 < 16" "(of_char c :: nat) mod 16 < 16"
    using of_char_bound [of c] by (simp_all add: less_mult_imp_div_less)
  then have "CHR ''&'' \<noteq> hex_digit (of_char c div 16)" "CHR ''&'' \<noteq> hex_digit (of_char c mod 16)"
    "CHR ''='' \<noteq> hex_digit (of_char c div 16)" "CHR ''='' \<noteq> hex_digit (of_char c mod 16)"
    using hex_digit_facts(3,4) by (metis)+
  then show ?thesis
    using alnum_not_special [of c]
    by (auto simp add: urlencode_byte_def)
qed

lemma urlencode_no_separator:
  "CHR ''&'' \<notin> set (urlencode s)" "CHR ''='' \<notin> set (urlencode s)"
  using urlencode_byte_no_separator by (auto simp add: urlencode_def)

lemma urldecode_byte:
  "urldecode (urlencode_byte c @ rest) = c # urldecode rest"
proof -
  define n where "n = (of_char c :: nat)"
  have d: "n div 16 < 16" "n mod 16 < 16"
    using of_char_bound [of c] by (simp_all add: n_def less_mult_imp_div_less)
  have again: "char_of (16 * (n div 16) + n mod 16) = c" by (simp add: n_def)
  consider (plain) "is_alnum c \<or> c = CHR ''*'' \<or> c = CHR ''-'' \<or> c = CHR ''.'' \<or> c = CHR ''_''"
    | (space) "c = CHR '' ''"
    | (other) "\<not> (is_alnum c \<or> c = CHR ''*'' \<or> c = CHR ''-'' \<or> c = CHR ''.'' \<or> c = CHR ''_'')"
        "c \<noteq> CHR '' ''"
    by blast
  then show ?thesis
  proof cases
    case plain
    then have "c \<noteq> CHR ''%'' \<and> c \<noteq> CHR ''+''"
      using alnum_not_special [of c] by auto
    with plain show ?thesis by (simp add: urlencode_byte_def urldecode_def)
  next
    case space
    then show ?thesis by (simp add: urlencode_byte_def urldecode_def is_alnum_def)
  next
    case other
    then have e: "urlencode_byte c = [CHR ''%'', hex_digit (n div 16), hex_digit (n mod 16)]"
      by (simp add: urlencode_byte_def n_def)
    show ?thesis
      unfolding e urldecode_def using d again by (simp add: hex_digit_facts)
  qed
qed

lemma urldecode_urlencode: "urldecode (urlencode s) = s"
proof (induction s)
  case Nil
  show ?case by (simp add: urldecode_def urlencode_def)
next
  case (Cons c s)
  have "urldecode (urlencode (c # s)) = urldecode (urlencode_byte c @ urlencode s)"
    by (simp add: urlencode_def)
  also have "\<dots> = c # urldecode (urlencode s)" by (rule urldecode_byte)
  finally show ?case by (simp add: Cons.IH)
qed

lemma split_on_nonempty: "split_on c s \<noteq> []"
  by (induction s) (auto split: list.splits)

lemma split_on_single: "c \<notin> set x \<Longrightarrow> split_on c x = [x]"
  by (induction x) auto

lemma split_on_append: "c \<notin> set x \<Longrightarrow> split_on c (x @ c # rest) = x # split_on c rest"
  by (induction x) auto

lemma split_on_join:
  "xs \<noteq> [] \<Longrightarrow> list_all (\<lambda>x. c \<notin> set x) xs \<Longrightarrow> split_on c (join [c] xs) = xs"
proof (induction "[c]" xs rule: join.induct)
  case 1
  then show ?case by simp
next
  case (2 x)
  then show ?case by (simp add: split_on_single)
next
  case (3 x y ys)
  then show ?case by (simp add: split_on_append)
qed

lemma parse_pieces:
  "map (\<lambda>piece. (urldecode (takeWhile (\<lambda>c. c \<noteq> CHR ''='') piece),
                  urldecode (drop 1 (dropWhile (\<lambda>c. c \<noteq> CHR ''='') piece))))
     (map (\<lambda>(k, v). urlencode k @ ''='' @ urlencode v) ps) = ps"
proof (induction ps)
  case Nil
  show ?case by simp
next
  case (Cons p ps)
  obtain k v where p: "p = (k, v)" by (cases p)
  have w: "list_all (\<lambda>c. c \<noteq> CHR ''='') (urlencode k)"
    using urlencode_no_separator(2) [of k] by (auto simp add: list_all_iff)
  have t: "takeWhile (\<lambda>c. c \<noteq> CHR ''='') (urlencode k @ CHR ''='' # urlencode v) = urlencode k"
    using w by (rule takeWhile_block) simp
  have d: "dropWhile (\<lambda>c. c \<noteq> CHR ''='') (urlencode k @ CHR ''='' # urlencode v)
      = CHR ''='' # urlencode v"
    using w by (rule dropWhile_block) simp
  show ?case using Cons.IH by (simp add: p t d urldecode_urlencode)
qed

lemma urlencoded_roundtrip: "urlencoded_parse (URLSearchParams_toString ps) = ps"
proof (cases "ps = []")
  case True
  then show ?thesis by (simp add: urlencoded_parse_def URLSearchParams_toString_def)
next
  case False
  define pieces where "pieces = map (\<lambda>(k, v). urlencode k @ ''='' @ urlencode v) ps"
  have ne: "pieces \<noteq> []" using False by (simp add: pieces_def)
  have clean: "list_all (\<lambda>x. CHR ''&'' \<notin> set x) pieces"
    using urlencode_no_separator(1) by (auto simp add: pieces_def list_all_iff)
  have full: "list_all (\<lambda>x. x \<noteq> []) pieces"
    by (auto simp add: pieces_def list_all_iff)
  have "split_on (CHR ''&'') (join ''&'' pieces) = pieces"
    using split_on_join [OF ne clean] by simp
  moreover have "filter (\<lambda>piece. piece \<noteq> []) pieces = pieces"
    using full by (simp add: list_all_iff)
  ultimately have "urlencoded_parse (join ''&'' pieces) =
      map (\<lambda>piece. (urldecode (takeWhile (\<lambda>c. c \<noteq> CHR ''='') piece),
                      urldecode (drop 1 (dropWhile (\<lambda>c. c \<noteq> CHR ''='') piece)))) pieces"
    by (simp add: urlencoded_parse_def)
  also have "\<dots> = ps" unfolding pieces_def by (rule parse_pieces)
  finally show ?thesis by (simp add: URLSearchParams_toString_def pieces_def)
qed

lemma urlencode_keys:
  "urlencode ''origin'' = ''origin''" "urlencode ''session'' = ''session''"
  "urlencode ''repo'' = ''repo''" "urlencode ''repoId'' = ''repoId''"
  "urlencode ''category'' = ''category''" "urlencode ''categoryId'' = ''categoryId''"
  "urlencode ''term'' = ''term''" "urlencode ''number'' = ''number''"
  "urlencode ''reactionsEnabled'' = ''reactionsEnabled''"
  "urlencode ''emitMetadata'' = ''emitMetadata''"
  "urlencode ''inputPosition'' = ''inputPosition''"
  "urlencode ''theme'' = ''theme''" "urlencode ''description'' = ''description''"
  by (simp_all add: urlencode_def urlencode_byte_def is_alnum_def)

lemma getIframeSrc_explicit:
  "getIframeSrc st =
     GISCUS_ORIGIN @ (if lang (props st) \<noteq> [] then ''/'' @ lang (props st) else []) @ ''/widget''
     @ ''?origin='' @ urlencode (URL_toString (cleaned_url (location st))
                                  @ (if id_prop st \<noteq> [] then ''#'' @ id_prop st else []))
     @ ''&session='' @ urlencode (ToString (session st))
     @ ''&repo='' @ urlencode (repo (props st))
     @ ''&repoId='' @ urlencode (case repoId (props st) of None \<Rightarrow> [] | Some v \<Rightarrow> v)
     @ ''&category='' @ urlencode (case category (props st) of None \<Rightarrow> [] | Some v \<Rightarrow> v)
     @ ''&categoryId='' @ urlencode (case categoryId (props st) of None \<Rightarrow> [] | Some v \<Rightarrow> v)
     @ ''&term='' @ urlencode (getTerm st)
     @ ''&number='' @ urlencode (getNumber st)
     @ ''&reactionsEnabled='' @ urlencode (reactionsEnabled (props st))
     @ ''&emitMetadata='' @ urlencode (emitMetadata (props st))
     @ ''&inputPosition='' @ urlencode (inputPosition (props st))
     @ ''&theme='' @ urlencode (theme (props st))
     @ ''&description='' @ urlencode (getOgMetaContent st ''description'')"
  by (simp add: getIframeSrc_def iframe_params_def URLSearchParams_toString_def Let_def
      urlencode_keys or_empty_def)

text \<open>
  Claim C5. The frame address is the remote origin, then \<^verbatim>\<open>/\<close> and the language when
  the language is not empty, then \<^verbatim>\<open>/widget\<close>, then a query that consists of the
  thirteen parameters origin, session, repo, repoId, category, categoryId, term, number,
  reactionsEnabled, emitMetadata, inputPosition, theme and description, in this order,
  each value form-urlencoded and a missing optional property written as an empty value.
  Parsing the query gives these thirteen pairs back, so none is omitted and none runs
  into its neighbour.
\<close>

theorem getIframeSrc_address:
  "\<exists>query.
     getIframeSrc st =
       GISCUS_ORIGIN @ (if lang (props st) \<noteq> [] then ''/'' @ lang (props st) else [])
         @ ''/widget'' @ ''?'' @ query
     \<and> query =
         ''origin='' @ urlencode (URL_toString (cleaned_url (location st))
                                  @ (if id_prop st \<noteq> [] then ''#'' @ id_prop st else []))
         @ ''&session='' @ urlencode (ToString (session st))
         @ ''&repo='' @ urlencode (repo (props st))
         @ ''&repoId='' @ urlencode (case repoId (props st) of None \<Rightarrow> [] | Some v \<Rightarrow> v)
         @ ''&category='' @ urlencode (case category (props st) of None \<Rightarrow> [] | Some v \<Rightarrow> v)
         @ ''&categoryId='' @ urlencode (case categoryId (props st) of None \<Rightarrow> [] | Some v \<Rightarrow> v)
         @ ''&term='' @ urlencode (getTerm st)
         @ ''&number='' @ urlencode (getNumber st)
         @ ''&reactionsEnabled='' @ urlencode (reactionsEnabled (props st))
         @ ''&emitMetadata='' @ urlencode (emitMetadata (props st))
         @ ''&inputPosition='' @ urlencode (inputPosition (props st))
         @ ''&theme='' @ urlencode (theme (props st))
         @ ''&description='' @ urlencode (getOgMetaContent st ''description'')
     \<and> urlencoded_parse query =
         [(''origin'', URL_toString (cleaned_url (location st))
                        @ (if id_prop st \<noteq> [] then ''#'' @ id_prop st else [])),
          (''session'', ToString (session st)),
          (''repo'', repo (props st)),
          (''repoId'', case repoId (props st) of None \<Rightarrow> [] | Some v \<Rightarrow> v),
          (''category'', case category (props st) of None \<Rightarrow> [] | Some v \<Rightarrow> v),
          (''categoryId'', case categoryId (props st) of None \<Rightarrow> [] | Some v \<Rightarrow> v),
          (''term'', getTerm st),
          (''number'', getNumber st),
          (''reactionsEnabled'', reactionsEnabled (props st)),
          (''emitMetadata'', emitMetadata (props st)),
          (''inputPosition'', inputPosition (props st)),
          (''theme'', theme (props st)),
          (''description'', getOgMetaContent st ''description'')]"
proof -
  define query where "query = URLSearchParams_toString (iframe_params st)"
  have whole: "getIframeSrc st =
       GISCUS_ORIGIN @ (if lang (props st) \<noteq> [] then ''/'' @ lang (props st) else [])
         @ ''/widget'' @ ''?'' @ query"
    by (simp add: getIframeSrc_def query_def Let_def)
  have written: "query =
         ''origin='' @ urlencode (URL_toString (cleaned_url (location st))
                                  @ (if id_prop st \<noteq> [] then ''#'' @ id_prop st else []))
         @ ''&session='' @ urlencode (ToString (session st))
         @ ''&repo='' @ urlencode (repo (props st))
         @ ''&repoId='' @ urlencode (case repoId (props st) of None \<Rightarrow> [] | Some v \<Rightarrow> v)
         @ ''&category='' @ urlencode (case category (props st) of None \<Rightarrow> [] | Some v \<Rightarrow> v)
         @ ''&categoryId='' @ urlencode (case categoryId (props st) of None \<Rightarrow> [] | Some v \<Rightarrow> v)
         @ ''&term='' @ urlencode (getTerm st)
         @ ''&number='' @ urlencode (getNumber st)
         @ ''&reactionsEnabled='' @ urlencode (reactionsEnabled (props st))
         @ ''&emitMetadata='' @ urlencode (emitMetadata (props st))
         @ ''&inputPosition='' @ urlencode (inputPosition (props st))
         @ ''&theme='' @ urlencode (theme (props st))
         @ ''&description='' @ urlencode (getOgMetaContent st ''description'')"
    using getIframeSrc_explicit [of st] unfolding whole by simp
  have "urlencoded_parse query = iframe_params st"
    unfolding query_def by (rule urlencoded_roundtrip)
  then have read: "urlencoded_parse query =
         [(''origin'', URL_toString (cleaned_url (location st))
                        @ (if id_prop st \<noteq> [] then ''#'' @ id_prop st else [])),
          (''session'', ToString (session st)),
          (''repo'', repo (props st)),
          (''repoId'', case repoId (props st) of None \<Rightarrow> [] | Some v \<Rightarrow> v),
          (''category'', case category (props st) of None \<Rightarrow> [] | Some v \<Rightarrow> v),
          (''categoryId'', case categoryId (props st) of None \<Rightarrow> [] | Some v \<Rightarrow> v),
          (''term'', getTerm st),
          (''number'', getNumber st),
          (''reactionsEnabled'', reactionsEnabled (props st)),
          (''emitMetadata'', emitMetadata (props st)),
          (''inputPosition'', inputPosition (props st)),
          (''theme'', theme (props st)),
          (''description'', getOgMetaContent st ''description'')]"
    by (simp add: iframe_params_def Let_def or_empty_def)
  from whole written read show ?thesis by blast
qed

text \<open>
  The example of the specification: \<^verbatim>\<open>{repo: "a/b", theme: "dark", lang: "fr"}\<close>, no
  session, on the example page.
\<close>

lemma example_term: "getTerm example_page = ''posts/a''"
  by (simp add: getTerm_def example_page_def example_config_def Let_def is_word_def is_alnum_def)

theorem getIframeSrc_address_example:
  "getIframeSrc example_page =
     ''https://giscus.app/fr/widget?origin=https%3A%2F%2Fexample.com%2Fposts%2Fa.html&session=&repo=a%2Fb&repoId=&category=&categoryId=&term=posts%2Fa&number=&reactionsEnabled=1&emitMetadata=0&inputPosition=bottom&theme=dark&description=''"
proof -
  from getIframeSrc_address [of example_page] obtain query where
    "getIframeSrc example_page =
       GISCUS_ORIGIN @ (if lang (props example_page) \<noteq> [] then ''/'' @ lang (props example_page) else [])
         @ ''/widget'' @ ''?'' @ query"
    and "query =
         ''origin='' @ urlencode (URL_toString (cleaned_url (location example_page))
                                  @ (if id_prop example_page \<noteq> [] then ''#'' @ id_prop example_page else []))
         @ ''&session='' @ urlencode (ToString (session example_page))
         @ ''&repo='' @ urlencode (repo (props example_page))
         @ ''&repoId='' @ urlencode (case repoId (props example_page) of None \<Rightarrow> [] | Some v \<Rightarrow> v)
         @ ''&category='' @ urlencode (case category (props example_page) of None \<Rightarrow> [] | Some v \<Rightarrow> v)
         @ ''&categoryId='' @ urlencode (case categoryId (props example_page) of None \<Rightarrow> [] | Some v \<Rightarrow> v)
         @ ''&term='' @ urlencode (getTerm example_page)
         @ ''&number='' @ urlencode (getNumber example_page)
         @ ''&reactionsEnabled='' @ urlencode (reactionsEnabled (props example_page))
         @ ''&emitMetadata='' @ urlencode (emitMetadata (props example_page))
         @ ''&inputPosition='' @ urlencode (inputPosition (props example_page))
         @ ''&theme='' @ urlencode (theme (props example_page))
         @ ''&description='' @ urlencode (getOgMetaContent example_page ''description'')"
    by blast
  then show ?thesis
    by (simp add: example_term getNumber_def getOgMetaContent_def)
      (simp add: example_page_def example_config_def GISCUS_ORIGIN_def URL_toString_def
        cleaned_url_def URLSearchParams_delete_def urlencode_def urlencode_byte_def is_alnum_def
        hex_digit_def)
qed


section \<open>The message handler\<close>

lemma final_state_simps [simp]:
  "final_state (Inr st) = st" "final_state (Inl (e, st)) = st"
  by (simp_all add: final_state_def)

lemma accepted_handle:
  "accepted ev \<Longrightarrow>
   handleMessageEvent st ev =
     (if truthy (get_prop (tagged ev) ''error'')
      then handle_error (get_prop (tagged ev) ''error'') (resize_frame (tagged ev) st)
      else Inr (resize_frame (tagged ev) st))"
  by (auto simp add: handleMessageEvent_def accepted_def carries_giscus_def tagged_def Let_def)

lemma rejected_handle:
  "\<not> accepted ev \<Longrightarrow>
   handleMessageEvent st ev =
     (if origin ev = GISCUS_ORIGIN \<and> data ev = JNull then Inl (TypeError, st) else Inr st)"
  by (auto simp add: handleMessageEvent_def accepted_def carries_giscus_def Let_def)

lemma auth_failure_string: "auth_failure (JString msg) = Some (auth_error msg)"
  by (simp add: auth_failure_def auth_error_def)

lemma auth_error_nonempty: "auth_error msg \<Longrightarrow> msg \<noteq> []"
  by (auto simp add: auth_error_def)

lemma report_error_string:
  "report_error (JString msg) st =
     Inr (if string_includes msg ''Discussion not found''
          then console_warn
                 (''[giscus] '' @ msg
                    @ ''. A new discussion will be created if a comment/reaction is submitted.'') st
          else console_error (formatError msg @ '' '' @ ERROR_SUGGESTION) st)"
  by (simp add: report_error_def)

lemma handle_error_invalidate:
  "auth_error msg \<Longrightarrow> localStorage st GISCUS_SESSION_KEY \<noteq> None \<Longrightarrow>
   handle_error (JString msg) st =
     update
       (console_warn (formatError msg @ '' Session has been cleared.'')
          (st\<lparr>localStorage := (localStorage st)(GISCUS_SESSION_KEY := None),
              session := JString []\<rparr>))"
  by (simp add: handle_error_def auth_failure_string)

lemma handle_error_no_session:
  "auth_error msg \<Longrightarrow> localStorage st GISCUS_SESSION_KEY = None \<Longrightarrow>
   handle_error (JString msg) st =
     report_error (JString msg)
       (console_error
          (formatError msg @ '' No session is stored initially. '' @ ERROR_SUGGESTION) st)"
  by (simp add: handle_error_def auth_failure_string)

lemma resize_frame_keeps:
  "localStorage (resize_frame g st) = localStorage st"
  "session (resize_frame g st) = session st"
  "console (resize_frame g st) = console st"
  "renders (resize_frame g st) = renders st"
  "posted (resize_frame g st) = posted st"
  "hasUpdated (resize_frame g st) = hasUpdated st"
  "isUpdatePending (resize_frame g st) = isUpdatePending st"
  "listening (resize_frame g st) = listening st"
  "renderRoot (resize_frame g st) = renderRoot st"
  "isConnected (resize_frame g st) = isConnected st"
  "props (resize_frame g st) = props st"
  "location (resize_frame g st) = location st"
  "title (resize_frame g st) = title st"
  "metas (resize_frame g st) = metas st"
  "id_prop (resize_frame g st) = id_prop st"
  "map_option src (iframe (resize_frame g st)) = map_option src (iframe st)"
  "(iframe (resize_frame g st) = None) = (iframe st = None)"
  by (simp_all add: resize_frame_def split: option.splits)

lemma getIframeSrc_cong:
  "location a = location b \<Longrightarrow> id_prop a = id_prop b \<Longrightarrow> metas a = metas b \<Longrightarrow>
   title a = title b \<Longrightarrow> session a = session b \<Longrightarrow> props a = props b \<Longrightarrow>
   getIframeSrc a = getIframeSrc b"
  by (simp add: getIframeSrc_explicit getTerm_metadata_only [of a b] getNumber_def
      getOgMetaContent_def)

lemma update_fields:
  "localStorage (final_state (update st)) = localStorage st"
  "session (final_state (update st)) = session st"
  "console (final_state (update st)) = console st"
  "posted (final_state (update st)) = posted st"
  "hasUpdated (final_state (update st)) = hasUpdated st"
  "isUpdatePending (final_state (update st)) = False"
  "listening (final_state (update st)) = listening st"
  "renderRoot (final_state (update st)) = renderRoot st"
  "isConnected (final_state (update st)) = isConnected st"
  "props (final_state (update st)) = props st"
  "location (final_state (update st)) = location st"
  "title (final_state (update st)) = title st"
  "metas (final_state (update st)) = metas st"
  "id_prop (final_state (update st)) = id_prop st"
  by (simp_all add: update_def render_def Let_def)

lemma update_rooted:
  assumes "renderRoot st"
  shows "update st = Inr (final_state (update st))"
    and "renders (final_state (update st)) = Suc (renders st)"
    and "map_option src (iframe (final_state (update st))) = Some (getIframeSrc st)"
    and "iframe (final_state (update st)) \<noteq> None"
  using assms by (simp_all add: update_def render_def Let_def split: option.splits)

lemma update_unrooted:
  assumes "\<not> renderRoot st"
  shows "update st = Inl (TypeError, final_state (update st))"
    and "renders (final_state (update st)) = renders st"
    and "iframe (final_state (update st)) = iframe st"
  using assms by (simp_all add: update_def render_def Let_def)

lemma getIframeSrc_update: "getIframeSrc (final_state (update st)) = getIframeSrc st"
  by (rule getIframeSrc_cong) (simp_all add: update_fields)

lemma console_fields:
  "localStorage (console_warn t st) = localStorage st"
  "localStorage (console_error t st) = localStorage st"
  "session (console_warn t st) = session st"
  "session (console_error t st) = session st"
  "renders (console_warn t st) = renders st"
  "renders (console_error t st) = renders st"
  "iframe (console_warn t st) = iframe st"
  "iframe (console_error t st) = iframe st"
  "posted (console_warn t st) = posted st"
  "posted (console_error t st) = posted st"
  "hasUpdated (console_warn t st) = hasUpdated st"
  "hasUpdated (console_error t st) = hasUpdated st"
  "isUpdatePending (console_warn t st) = isUpdatePending st"
  "isUpdatePending (console_error t st) = isUpdatePending st"
  "renderRoot (console_warn t st) = renderRoot st"
  "renderRoot (console_error t st) = renderRoot st"
  "location (console_warn t st) = location st"
  "id_prop (console_warn t st) = id_prop st"
  "props (console_warn t st) = props st"
  "isConnected (console_warn t st) = isConnected st"
  "console (console_warn t st) = console st @ [(Warn, t)]"
  "console (console_error t st) = console st @ [(Error, t)]"
  by (simp_all add: console_warn_def console_error_def)


lemma constructed_page_eq:
  "constructed_page =
      example_page\<lparr>isUpdatePending := True,
        localStorage := [GISCUS_SESSION_KEY \<mapsto> JSON_stringify ''XYZ''],
        session := JString ''XYZ'', location := cleaned_url (location example_page),
        listening := True\<rparr>"
  by (simp add: constructed_page_def constructor_def requestUpdate_def super_requestUpdate_def
      setupSession_def Let_def or_empty_def URLSearchParams_get_def cleaned_url_def
      example_page_def)

lemma constructed_page_fields:
  "localStorage constructed_page GISCUS_SESSION_KEY = Some (JSON_stringify ''XYZ'')"
  "session constructed_page = JString ''XYZ''"
  "console constructed_page = []"
  "renders constructed_page = 0"
  "iframe constructed_page = None"
  "\<not> renderRoot constructed_page"
  "\<not> hasUpdated constructed_page"
  "isUpdatePending constructed_page"
  "listening constructed_page"
  "posted constructed_page = []"
  unfolding constructed_page_eq by (simp_all add: example_page_def)

lemma performUpdate_rooted:
  assumes "isUpdatePending st" and "renderRoot st"
  shows "performUpdate st = (final_state (update st))\<lparr>hasUpdated := True\<rparr>"
proof -
  from update_rooted(1) [OF assms(2)] obtain st' where "update st = Inr st'" by blast
  with assms show ?thesis by (simp add: performUpdate_def)
qed

lemma connected_page_fields:
  "localStorage connected_page GISCUS_SESSION_KEY = Some (JSON_stringify ''XYZ'')"
  "session connected_page = JString ''XYZ''"
  "console connected_page = []"
  "renders connected_page = 0"
  "iframe connected_page = None"
  "renderRoot connected_page"
  "isConnected connected_page"
  "\<not> hasUpdated connected_page"
  "isUpdatePending connected_page"
  "listening connected_page"
  "posted connected_page = []"
  "props connected_page = example_config"
  by (simp_all add: connected_page_def connectedCallback_def attach_def constructed_page_fields)
    (simp_all add: constructed_page_eq example_page_def)

lemma rendered_page_fields:
  "localStorage rendered_page GISCUS_SESSION_KEY = Some (JSON_stringify ''XYZ'')"
  "session rendered_page = JString ''XYZ''"
  "console rendered_page = []"
  "renders rendered_page = 1"
  "hasUpdated rendered_page"
  "listening rendered_page"
  "posted rendered_page = []"
  "renderRoot rendered_page"
  "\<not> isUpdatePending rendered_page"
  "iframe rendered_page =
     Some \<lparr>src = getIframeSrc connected_page,
           loading_attr = ''eager'', style_height = [], contentWindow = True\<rparr>"
proof -
  have r: "rendered_page = (final_state (update connected_page))\<lparr>hasUpdated := True\<rparr>"
    unfolding rendered_page_def step.simps
    by (rule performUpdate_rooted) (simp_all add: connected_page_fields)
  show "localStorage rendered_page GISCUS_SESSION_KEY = Some (JSON_stringify ''XYZ'')"
    "session rendered_page = JString ''XYZ''"
    "console rendered_page = []"
    "renders rendered_page = 1"
    "hasUpdated rendered_page"
    "listening rendered_page"
    "posted rendered_page = []"
    "renderRoot rendered_page"
    "\<not> isUpdatePending rendered_page"
    unfolding r
    by (simp_all add: update_fields update_rooted(2-4) [OF connected_page_fields(6)]
        connected_page_fields)
  show "iframe rendered_page =
     Some \<lparr>src = getIframeSrc connected_page,
           loading_attr = ''eager'', style_height = [], contentWindow = True\<rparr>"
    unfolding r
    by (simp add: update_def render_def Let_def connected_page_fields example_config_def)
qed

lemma rendered_anonymous_fields:
  "localStorage rendered_anonymous GISCUS_SESSION_KEY = None"
  "session rendered_anonymous = JString []"
  "console rendered_anonymous = []"
  "renders rendered_anonymous = 1"
  "hasUpdated rendered_anonymous"
  "listening rendered_anonymous"
  "posted rendered_anonymous = []"
  "iframe rendered_anonymous \<noteq> None"
proof -
  let ?c = "root_page\<lparr>isUpdatePending := True, listening := True, isConnected := True,
        renderRoot := True\<rparr>"
  have c: "step Connect (constructor JSON_parse_string root_page) = ?c"
    by (simp add: constructor_def requestUpdate_def super_requestUpdate_def setupSession_def
        Let_def or_empty_def URLSearchParams_get_def root_page_def example_page_def
        connectedCallback_def attach_def)
  have root: "renderRoot ?c" and pending: "isUpdatePending ?c" by simp_all
  have "rendered_anonymous = performUpdate ?c"
    unfolding rendered_anonymous_def c by simp
  also have "\<dots> = (final_state (update ?c))\<lparr>hasUpdated := True\<rparr>"
    using pending root by (rule performUpdate_rooted)
  finally have r: "rendered_anonymous = (final_state (update ?c))\<lparr>hasUpdated := True\<rparr>" .
  show "localStorage rendered_anonymous GISCUS_SESSION_KEY = None"
    "session rendered_anonymous = JString []"
    "console rendered_anonymous = []"
    "renders rendered_anonymous = 1"
    "hasUpdated rendered_anonymous"
    "listening rendered_anonymous"
    "posted rendered_anonymous = []"
    "iframe rendered_anonymous \<noteq> None"
    unfolding r
    by (simp_all add: update_fields update_rooted(2-4) [OF root] del: not_None_eq)
      (simp_all add: root_page_def example_page_def)
qed

lemma example_events:
  "accepted resize_event" "accepted zero_height_event" "accepted bad_credentials_event"
  "accepted mixed_error_event" "\<not> accepted foreign_event" "\<not> accepted untagged_event"
  "origin foreign_event \<noteq> GISCUS_ORIGIN"
  "\<not> carries_giscus (data untagged_event)"
  "get_prop (tagged resize_event) ''resizeHeight'' = JNumber True ''600''"
  "get_prop (tagged zero_height_event) ''resizeHeight'' = JNumber False ''0''"
  "get_prop (tagged bad_credentials_event) ''error'' = JString ''Bad credentials''"
  "get_prop (tagged mixed_error_event) ''error'' = JString ''Bad credentials. Discussion not found''"
  by (simp_all add: accepted_def carries_giscus_def tagged_def resize_event_def
      zero_height_event_def bad_credentials_event_def mixed_error_event_def foreign_event_def
      untagged_event_def GISCUS_ORIGIN_def)

lemma example_errors:
  "auth_error ''Bad credentials''"
  "auth_error ''Bad credentials. Discussion not found''"
  "\<not> string_includes ''Bad credentials'' ''Discussion not found''"
  "string_includes ''Bad credentials. Discussion not found'' ''Discussion not found''"
  by (simp_all add: auth_error_def)



text \<open>
  Claim C10, as amended. Take an accepted event whose error is a string containing
  \<^verbatim>\<open>Bad credentials\<close> or \<^verbatim>\<open>Invalid state value\<close>, arriving while no token is
  stored. The handler logs the no-session error and does not return: it goes on to the
  discussion-not-found check. When the error does not contain
  \<^verbatim>\<open>Discussion not found\<close>, the same error is logged a second time by the generic
  path; when it does, the second line is the discussion-not-found warning and the generic
  path is not reached. Token and storage are unchanged, and the handler returns normally.
\<close>

theorem no_session_fall_through:
  assumes "accepted ev"
    and "get_prop (tagged ev) ''error'' = JString msg"
    and "auth_error msg"
    and "localStorage st GISCUS_SESSION_KEY = None"
    and "st' = final_state (handleMessageEvent st ev)"
  shows "handleMessageEvent st ev = Inr st'
    \<and> console st' =
        console st
        @ [(Error, formatError msg @ '' No session is stored initially. '' @ ERROR_SUGGESTION),
           (if string_includes msg ''Discussion not found''
            then (Warn, ''[giscus] '' @ msg
                          @ ''. A new discussion will be created if a comment/reaction is submitted.'')
            else (Error, formatError msg @ '' '' @ ERROR_SUGGESTION))]
    \<and> session st' = session st
    \<and> localStorage st' = localStorage st"
proof -
  let ?st1 = "resize_frame (tagged ev) st"
  let ?first = "console_error
        (formatError msg @ '' No session is stored initially. '' @ ERROR_SUGGESTION) ?st1"
  have t: "truthy (get_prop (tagged ev) ''error'')"
    using assms(2,3) by (simp add: auth_error_nonempty)
  have "handleMessageEvent st ev = handle_error (JString msg) ?st1"
    using assms(1,2) t by (simp add: accepted_handle)
  then have r: "handleMessageEvent st ev = report_error (JString msg) ?first"
    using assms(3,4) by (simp add: handle_error_no_session resize_frame_keeps)
  show ?thesis
    using assms(5) unfolding r report_error_string
    by (simp add: console_fields resize_frame_keeps)
qed

theorem no_session_fall_through_witness:
  "accepted bad_credentials_event
   \<and> get_prop (tagged bad_credentials_event) ''error'' = JString ''Bad credentials''
   \<and> auth_error ''Bad credentials''
   \<and> localStorage rendered_anonymous GISCUS_SESSION_KEY = None
   \<and> console (final_state (handleMessageEvent rendered_anonymous bad_credentials_event)) =
       [(Error, formatError ''Bad credentials'' @ '' No session is stored initially. ''
                  @ ERROR_SUGGESTION),
        (Error, formatError ''Bad credentials'' @ '' '' @ ERROR_SUGGESTION)]
   \<and> session (final_state (handleMessageEvent rendered_anonymous bad_credentials_event)) = JString []
   \<and> localStorage (final_state (handleMessageEvent rendered_anonymous bad_credentials_event))
        GISCUS_SESSION_KEY = None"
proof -
  note a = example_events(3) and e = example_events(11) and m = example_errors(1)
    and n = rendered_anonymous_fields(1)
  let ?b = "final_state (handleMessageEvent rendered_anonymous bad_credentials_event)"
  from no_session_fall_through [OF a e m n refl]
  have B: "console ?b =
        console rendered_anonymous
        @ [(Error, formatError ''Bad credentials'' @ '' No session is stored initially. ''
                     @ ERROR_SUGGESTION),
           (if string_includes ''Bad credentials'' ''Discussion not found''
            then (Warn, ''[giscus] '' @ ''Bad credentials''
                          @ ''. A new discussion will be created if a comment/reaction is submitted.'')
            else (Error, formatError ''Bad credentials'' @ '' '' @ ERROR_SUGGESTION))]"
    "session ?b = session rendered_anonymous" "localStorage ?b = localStorage rendered_anonymous"
    by blast+
  have "console ?b =
       [(Error, formatError ''Bad credentials'' @ '' No session is stored initially. ''
                  @ ERROR_SUGGESTION),
        (Error, formatError ''Bad credentials'' @ '' '' @ ERROR_SUGGESTION)]"
    unfolding B(1) by (simp only: example_errors(3) if_False rendered_anonymous_fields(3) append_Nil)
  moreover have "session ?b = JString []" by (simp add: B(2) rendered_anonymous_fields)
  moreover have "localStorage ?b GISCUS_SESSION_KEY = None" by (simp add: B(3) n)
  ultimately show ?thesis using a e m n by blast
qed

text \<open>
  The claim C10 as it is written fails for the error
  \<^verbatim>\<open>Bad credentials. Discussion not found\<close>: after the no-session error the handler
  logs the discussion-not-found warning and returns, so the console holds two lines and
  the second is not the generic error.
\<close>

theorem fall_through_counterexample:
  "accepted mixed_error_event
   \<and> get_prop (tagged mixed_error_event) ''error'' = JString ''Bad credentials. Discussion not found''
   \<and> auth_error ''Bad credentials. Discussion not found''
   \<and> localStorage rendered_anonymous GISCUS_SESSION_KEY = None
   \<and> console rendered_anonymous = []
   \<and> console (final_state (handleMessageEvent rendered_anonymous mixed_error_event)) =
       [(Error, formatError ''Bad credentials. Discussion not found''
                  @ '' No session is stored initially. '' @ ERROR_SUGGESTION),
        (Warn, ''[giscus] '' @ ''Bad credentials. Discussion not found''
                 @ ''. A new discussion will be created if a comment/reaction is submitted.'')]"
proof -
  note a = example_events(4) and e = example_events(12) and m = example_errors(2)
    and n = rendered_anonymous_fields(1)
  let ?st1 = "resize_frame (tagged mixed_error_event) rendered_anonymous"
  have same: "?st1 = rendered_anonymous"
    by (simp add: resize_frame_def tagged_def mixed_error_event_def split: option.splits)
  have "handleMessageEvent rendered_anonymous mixed_error_event
      = handle_error (JString ''Bad credentials. Discussion not found'') rendered_anonymous"
    using a e m by (simp add: accepted_handle same auth_error_nonempty)
  then have "handleMessageEvent rendered_anonymous mixed_error_event
      = report_error (JString ''Bad credentials. Discussion not found'')
          (console_error (formatError ''Bad credentials. Discussion not found''
             @ '' No session is stored initially. '' @ ERROR_SUGGESTION) rendered_anonymous)"
    using m n by (simp only: handle_error_no_session)
  then have "console (final_state (handleMessageEvent rendered_anonymous mixed_error_event)) =
       [(Error, formatError ''Bad credentials. Discussion not found''
                  @ '' No session is stored initially. '' @ ERROR_SUGGESTION),
        (Warn, ''[giscus] '' @ ''Bad credentials. Discussion not found''
                 @ ''. A new discussion will be created if a comment/reaction is submitted.'')]"
    by (simp only: report_error_string example_errors(4) if_True final_state_simps console_fields
        rendered_anonymous_fields(3) append_Nil append_Cons)
  then show ?thesis using a e m n rendered_anonymous_fields(3) by blast
qed

text \<open>
  An event that is not accepted and whose payload is not \<^verbatim>\<open>null\<close> is ignored: the
  handler returns the state as it was.
\<close>

lemma filtered_event_ignored:
  assumes "origin ev \<noteq> GISCUS_ORIGIN \<or> \<not> carries_giscus (data ev)"
    and "origin ev \<noteq> GISCUS_ORIGIN \<or> data ev \<noteq> JNull"
  shows "handleMessageEvent st ev = Inr st"
proof -
  from assms(1) have "\<not> accepted ev" by (auto simp add: accepted_def)
  then have "handleMessageEvent st ev =
        (if origin ev = GISCUS_ORIGIN \<and> data ev = JNull then Inl (TypeError, st) else Inr st)"
    by (rule rejected_handle)
  with assms(2) show ?thesis by auto
qed

text \<open>
  Claim C6. The claim wants every event whose payload is not an object carrying the giscus
  tag to be ignored without a trace. The payload \<^verbatim>\<open>null\<close> from the trusted origin is
  such an event, but the guard \<^verbatim>\<open>typeof data === 'object' && data.giscus\<close> lets it
  through to the property read, since \<^verbatim>\<open>typeof null\<close> is \<^verbatim>\<open>'object'\<close>: the handler
  throws a TypeError instead of returning.
\<close>

theorem handleMessageEvent_null_payload:
  "origin null_event = GISCUS_ORIGIN
   \<and> data null_event = JNull
   \<and> \<not> carries_giscus (data null_event)
   \<and> handleMessageEvent rendered_page null_event = Inl (TypeError, rendered_page)"
  by (simp add: null_event_def carries_giscus_def handleMessageEvent_def)

lemma frame_height_resize:
  "frame_height (resize_frame g st) =
     (if iframe st \<noteq> None \<and> truthy (get_prop g ''resizeHeight'')
      then ToString (get_prop g ''resizeHeight'') @ ''px'' else frame_height st)"
  by (auto simp add: frame_height_def resize_frame_def split: option.splits)

lemma frame_height_update: "frame_height (final_state (update st)) = frame_height st"
  by (simp add: frame_height_def update_def render_def Let_def split: option.splits)

lemma frame_height_console:
  "frame_height (console_warn t st) = frame_height st"
  "frame_height (console_error t st) = frame_height st"
  by (simp_all add: frame_height_def console_warn_def console_error_def)

lemma frame_height_report: "frame_height (final_state (report_error m st)) = frame_height st"
  by (simp add: report_error_def frame_height_console split: option.splits)

lemma frame_height_handle_error: "frame_height (final_state (handle_error m st)) = frame_height st"
proof -
  have cleared: "frame_height (st\<lparr>localStorage := l, session := s\<rparr>) = frame_height st" for l s
    by (simp add: frame_height_def)
  show ?thesis
    by (simp add: handle_error_def frame_height_report frame_height_update frame_height_console
        cleared split: option.splits)
qed

text \<open>
  Claim C9. After any message event, the frame height is the text of
  \<^verbatim>\<open>resizeHeight\<close> followed by \<^verbatim>\<open>px\<close> exactly when the event was accepted, a
  frame exists and \<^verbatim>\<open>resizeHeight\<close> is truthy. In every other case, a falsy
  \<^verbatim>\<open>resizeHeight\<close> such as 0 and a missing frame among them, the height is what it was.
\<close>

theorem frame_height_after_message:
  "frame_height (final_state (handleMessageEvent st ev)) =
     (if accepted ev \<and> iframe st \<noteq> None \<and> truthy (get_prop (tagged ev) ''resizeHeight'')
      then ToString (get_prop (tagged ev) ''resizeHeight'') @ ''px''
      else frame_height st)"
proof (cases "accepted ev")
  case True
  then show ?thesis
    by (simp add: accepted_handle frame_height_handle_error frame_height_resize)
next
  case False
  then show ?thesis
    by (simp add: rejected_handle)
qed

theorem frame_height_after_message_witness:
  "frame_height rendered_page = []
   \<and> frame_height (final_state (handleMessageEvent rendered_page resize_event)) = ''600px''
   \<and> frame_height (final_state (handleMessageEvent rendered_page zero_height_event)) = []
   \<and> iframe example_page = None
   \<and> frame_height (final_state (handleMessageEvent example_page resize_event)) = []"
proof -
  have h: "frame_height rendered_page = []" "iframe rendered_page \<noteq> None"
    by (simp_all add: frame_height_def rendered_page_fields)
  have n: "iframe example_page = None" "frame_height example_page = []"
    by (simp_all add: frame_height_def example_page_def)
  have "frame_height (final_state (handleMessageEvent rendered_page resize_event)) = ''600px''"
    using frame_height_after_message [of rendered_page resize_event] h
    by (simp add: example_events)
  moreover have "frame_height (final_state (handleMessageEvent rendered_page zero_height_event)) = []"
    using frame_height_after_message [of rendered_page zero_height_event] h
    by (simp add: example_events)
  moreover have "frame_height (final_state (handleMessageEvent example_page resize_event)) = []"
    using frame_height_after_message [of example_page resize_event] n
    by (simp add: example_events)
  ultimately show ?thesis using h n by simp
qed


section \<open>Configuration changes after the first update\<close>

lemma report_error_fields:
  "hasUpdated (final_state (report_error m st)) = hasUpdated st"
  "isUpdatePending (final_state (report_error m st)) = isUpdatePending st"
  "renderRoot (final_state (report_error m st)) = renderRoot st"
  "renders (final_state (report_error m st)) = renders st"
  "iframe (final_state (report_error m st)) = iframe st"
  by (simp_all add: report_error_def console_fields split: option.splits)

lemma handle_error_fields:
  "hasUpdated (final_state (handle_error m st)) = hasUpdated st"
  "renderRoot (final_state (handle_error m st)) = renderRoot st"
  "\<not> isUpdatePending st \<Longrightarrow> \<not> isUpdatePending (final_state (handle_error m st))"
  "\<not> (auth_failure m = Some True \<and> localStorage st GISCUS_SESSION_KEY \<noteq> None)
     \<Longrightarrow> iframe (final_state (handle_error m st)) = iframe st"
  by (auto simp add: handle_error_def report_error_fields update_fields console_fields
      simp del: not_None_eq split: option.splits)

lemma handle_error_renders:
  "renders (final_state (handle_error m st)) =
     (if auth_failure m = Some True \<and> localStorage st GISCUS_SESSION_KEY \<noteq> None
         \<and> renderRoot st
      then Suc (renders st) else renders st)"
proof (cases "renderRoot st")
  case True
  then have "renderRoot (console_warn t (st\<lparr>localStorage := l, session := s\<rparr>))" for t l s
    by (simp add: console_fields)
  from update_rooted(2) [OF this] True show ?thesis
    by (auto simp add: handle_error_def report_error_fields console_fields
        simp del: not_None_eq split: option.splits)
next
  case False
  then have "\<not> renderRoot (console_warn t (st\<lparr>localStorage := l, session := s\<rparr>))" for t l s
    by (simp add: console_fields)
  from update_unrooted(2) [OF this] False show ?thesis
    by (auto simp add: handle_error_def report_error_fields console_fields
        simp del: not_None_eq split: option.splits)
qed

lemma handle_error_frame:
  "iframe st \<noteq> None \<Longrightarrow> iframe (final_state (handle_error m st)) \<noteq> None"
proof (cases "renderRoot st")
  case True
  then have "renderRoot (console_warn t (st\<lparr>localStorage := l, session := s\<rparr>))" for t l s
    by (simp add: console_fields)
  from update_rooted(4) [OF this] show "iframe st \<noteq> None \<Longrightarrow> ?thesis"
    by (auto simp add: handle_error_def report_error_fields console_fields
        simp del: not_None_eq split: option.splits)
next
  case False
  then have "\<not> renderRoot (console_warn t (st\<lparr>localStorage := l, session := s\<rparr>))" for t l s
    by (simp add: console_fields)
  from update_unrooted(3) [OF this] show "iframe st \<noteq> None \<Longrightarrow> ?thesis"
    by (auto simp add: handle_error_def report_error_fields console_fields
        simp del: not_None_eq split: option.splits)
qed

lemma handler_fields:
  "hasUpdated (final_state (handleMessageEvent st ev)) = hasUpdated st"
  "renderRoot (final_state (handleMessageEvent st ev)) = renderRoot st"
  "\<not> isUpdatePending st \<Longrightarrow> \<not> isUpdatePending (final_state (handleMessageEvent st ev))"
  "iframe st \<noteq> None \<Longrightarrow> iframe (final_state (handleMessageEvent st ev)) \<noteq> None"
  by (cases "accepted ev";
      simp add: accepted_handle rejected_handle handle_error_fields handle_error_frame
        resize_frame_keeps del: not_None_eq)+

lemma handler_renders:
  "renders (final_state (handleMessageEvent st ev)) =
     (if invalidates st ev \<and> renderRoot st then Suc (renders st) else renders st)"
  by (cases "accepted ev")
    (auto simp add: accepted_handle rejected_handle handle_error_renders resize_frame_keeps
      invalidates_def)

lemma handler_src:
  "\<not> invalidates st ev \<Longrightarrow>
   map_option src (iframe (final_state (handleMessageEvent st ev))) = map_option src (iframe st)"
  by (cases "accepted ev")
    (auto simp add: accepted_handle rejected_handle handle_error_fields resize_frame_keeps
      invalidates_def)

lemma requestUpdate_rendered:
  "hasUpdated st \<Longrightarrow>
   requestUpdate st =
     (case iframe st of
        None \<Rightarrow> st
      | Some f \<Rightarrow> if contentWindow f
                  then st\<lparr>posted := posted st @ [(setConfig_message st, GISCUS_ORIGIN)]\<rparr>
                  else st)"
  by (simp add: requestUpdate_def updateConfig_def sendMessage_def)

text \<open>
  In every state the element can reach, once \<open>hasUpdated\<close> is set no update is pending,
  the frame exists and Lit has its render root.
\<close>

lemma reachable_settled:
  "reachable p st \<Longrightarrow>
   hasUpdated st \<longrightarrow> \<not> isUpdatePending st \<and> iframe st \<noteq> None \<and> renderRoot st"
proof (induction rule: reachable.induct)
  case (constructed st)
  then have "\<not> hasUpdated (constructor p st)"
    by (simp add: constructor_def fresh_def requestUpdate_def super_requestUpdate_def
        setupSession_def Let_def console_warn_def split: option.splits sum.splits)
  then show ?case by simp
next
  case (stepped st e)
  show ?case
  proof (cases e)
    case Connect
    with stepped show ?thesis by (simp add: connectedCallback_def attach_def)
  next
    case (SetProps c)
    with stepped show ?thesis
      by (auto simp add: requestUpdate_def super_requestUpdate_def updateConfig_def
          sendMessage_def split: option.splits)
  next
    case (Message ev)
    with stepped show ?thesis by (simp add: handler_fields del: not_None_eq)
  next
    case PerformUpdate
    show ?thesis
    proof (cases "isUpdatePending st \<and> renderRoot st")
      case True
      then have "performUpdate st = (final_state (update st))\<lparr>hasUpdated := True\<rparr>"
        by (simp add: performUpdate_rooted)
      with True PerformUpdate show ?thesis
        by (simp add: update_fields update_rooted(4) del: not_None_eq)
    next
      case False
      then have "performUpdate st = st" by (auto simp add: performUpdate_def)
      with stepped PerformUpdate show ?thesis by simp
    qed
  next
    case Disconnect
    with stepped show ?thesis by (simp add: disconnectedCallback_def detach_def)
  qed
qed

text \<open>
  Claim C3, as amended. In every reachable state in which \<open>hasUpdated\<close> is set, that is
  once the element's first update has run: writing a configuration leaves the frame (its
  source address included), the render count and the session as they are; it posts exactly
  one \<^verbatim>\<open>setConfig\<close> message built from the new configuration to the origin
  \<^verbatim>\<open>https://giscus.app\<close> when the frame has its window, and posts nothing when it has
  none. Whatever event comes next, the template is rendered again, or the frame's source
  changes, only if the event is a message on the session-invalidation path.
\<close>

theorem config_change_after_first_update:
  assumes "reachable p st" and "hasUpdated st"
  shows "iframe (step (SetProps c) st) = iframe st
    \<and> renders (step (SetProps c) st) = renders st
    \<and> session (step (SetProps c) st) = session st
    \<and> (attached st \<longrightarrow>
         posted (step (SetProps c) st)
           = posted st @ [(setConfig_message (st\<lparr>props := c\<rparr>), GISCUS_ORIGIN)])
    \<and> (\<not> attached st \<longrightarrow> posted (step (SetProps c) st) = posted st)
    \<and> (renders (step e st) \<noteq> renders st \<longrightarrow> (\<exists>ev. e = Message ev \<and> invalidates st ev))
    \<and> (map_option src (iframe (step e st)) \<noteq> map_option src (iframe st)
         \<longrightarrow> (\<exists>ev. e = Message ev \<and> invalidates st ev))"
proof -
  from reachable_settled [OF assms(1)] assms(2)
  have settled: "\<not> isUpdatePending st" "iframe st \<noteq> None" by simp_all
  have u: "hasUpdated (st\<lparr>props := c\<rparr>)" using assms(2) by simp
  have cfg: "iframe (step (SetProps c) st) = iframe st"
    "renders (step (SetProps c) st) = renders st"
    "session (step (SetProps c) st) = session st"
    by (simp_all add: requestUpdate_rendered [OF u] split: option.splits)
  have sent: "attached st \<longrightarrow>
         posted (step (SetProps c) st)
           = posted st @ [(setConfig_message (st\<lparr>props := c\<rparr>), GISCUS_ORIGIN)]"
    by (simp add: requestUpdate_rendered [OF u] attached_def split: option.splits)
  have silent: "\<not> attached st \<longrightarrow> posted (step (SetProps c) st) = posted st"
    using assms(2) by (simp add: requestUpdate_rendered [OF u] attached_def split: option.splits)
  have only: "\<exists>ev. e = Message ev \<and> invalidates st ev"
    if "renders (step e st) \<noteq> renders st
        \<or> map_option src (iframe (step e st)) \<noteq> map_option src (iframe st)"
  proof (cases e)
    case Connect
    with that show ?thesis
      by (simp add: connectedCallback_def attach_def option.map_comp comp_def
          split: option.splits)
  next
    case (SetProps c')
    have "hasUpdated (st\<lparr>props := c'\<rparr>)" using assms(2) by simp
    from requestUpdate_rendered [OF this] that SetProps show ?thesis
      by (simp split: option.splits if_splits)
  next
    case (Message ev)
    with that handler_renders [of st ev] handler_src [of st ev] show ?thesis
      by (auto split: if_splits)
  next
    case PerformUpdate
    with that settled show ?thesis by (simp add: performUpdate_def)
  next
    case Disconnect
    with that show ?thesis
      by (simp add: disconnectedCallback_def detach_def option.map_comp comp_def
          split: option.splits)
  qed
  from cfg sent silent only show ?thesis by blast
qed

lemma rendered_page_reachable: "reachable JSON_parse_string rendered_page"
proof -
  have "fresh example_page" by (simp add: fresh_def example_page_def)
  then have "reachable JSON_parse_string constructed_page"
    unfolding constructed_page_def by (rule reachable.constructed)
  then have "reachable JSON_parse_string (step Connect constructed_page)"
    by (rule reachable.stepped)
  then have "reachable JSON_parse_string (step PerformUpdate (step Connect constructed_page))"
    by (rule reachable.stepped)
  then show ?thesis by (simp only: rendered_page_def connected_page_def)
qed

lemma rendered_page_attached: "attached rendered_page"
  by (simp add: attached_def rendered_page_fields)

lemma rendered_page_invalidates: "invalidates rendered_page bad_credentials_event"
  by (simp add: invalidates_def example_events auth_failure_string example_errors
      rendered_page_fields)

theorem config_change_after_first_update_witness:
  "reachable JSON_parse_string rendered_page
   \<and> hasUpdated rendered_page
   \<and> attached rendered_page
   \<and> iframe (step (SetProps (example_config\<lparr>theme := ''light''\<rparr>)) rendered_page)
       = iframe rendered_page
   \<and> posted (step (SetProps (example_config\<lparr>theme := ''light''\<rparr>)) rendered_page)
       = [(setConfig_message (rendered_page\<lparr>props := example_config\<lparr>theme := ''light''\<rparr>\<rparr>),
           GISCUS_ORIGIN)]
   \<and> renders (step (Message bad_credentials_event) rendered_page) \<noteq> renders rendered_page
   \<and> invalidates rendered_page bad_credentials_event"
proof -
  note r = rendered_page_reachable and u = rendered_page_fields(5)
  let ?c = "example_config\<lparr>theme := ''light''\<rparr>"
  let ?e = "Message bad_credentials_event"
  from config_change_after_first_update [OF r u, of ?c ?e] rendered_page_attached
  have A: "iframe (step (SetProps ?c) rendered_page) = iframe rendered_page"
    "posted (step (SetProps ?c) rendered_page)
       = posted rendered_page @ [(setConfig_message (rendered_page\<lparr>props := ?c\<rparr>), GISCUS_ORIGIN)]"
    "renders (step ?e rendered_page) \<noteq> renders rendered_page
       \<longrightarrow> (\<exists>ev. ?e = Message ev \<and> invalidates rendered_page ev)"
    by blast+
  have moved: "renders (step ?e rendered_page) \<noteq> renders rendered_page"
    by (simp add: rendered_page_fields handler_renders rendered_page_invalidates)
  with A(3) have "invalidates rendered_page bad_credentials_event" by simp
  with A(1) A(2) moved r u rendered_page_attached show ?thesis
    by (simp add: rendered_page_fields)
qed


lemma update_creates:
  "renderRoot st \<Longrightarrow> iframe st = None \<Longrightarrow>
   iframe (final_state (update st)) =
     Some \<lparr>src = getIframeSrc st, loading_attr = loading (props st), style_height = [],
           contentWindow = isConnected st\<rparr>"
  by (simp add: update_def render_def Let_def)

lemma getIframeSrc_params:
  assumes "lang (props a) = lang (props b)" and "getIframeSrc a = getIframeSrc b"
  shows "iframe_params a = iframe_params b"
proof -
  from assms have "URLSearchParams_toString (iframe_params a)
      = URLSearchParams_toString (iframe_params b)"
    by (simp add: getIframeSrc_def Let_def)
  then have "urlencoded_parse (URLSearchParams_toString (iframe_params a))
      = urlencoded_parse (URLSearchParams_toString (iframe_params b))"
    by simp
  then show ?thesis by (simp only: urlencoded_roundtrip)
qed

lemma early_invalidated_page_eq:
  "early_invalidated_page =
     final_state (update
       (console_warn (formatError ''Bad credentials'' @ '' Session has been cleared.'')
          (connected_page\<lparr>localStorage := (localStorage connected_page)(GISCUS_SESSION_KEY := None),
                           session := JString []\<rparr>)))"
proof -
  note a = example_events(3) and e = example_events(11) and m = example_errors(1)
  have same: "resize_frame (tagged bad_credentials_event) connected_page = connected_page"
    by (simp add: resize_frame_def connected_page_fields)
  have stored: "localStorage connected_page GISCUS_SESSION_KEY \<noteq> None"
    by (simp add: connected_page_fields)
  have "handleMessageEvent connected_page bad_credentials_event
      = handle_error (JString ''Bad credentials'') connected_page"
    using a e by (simp add: accepted_handle same)
  also have "\<dots> = update
       (console_warn (formatError ''Bad credentials'' @ '' Session has been cleared.'')
          (connected_page\<lparr>localStorage := (localStorage connected_page)(GISCUS_SESSION_KEY := None),
                           session := JString []\<rparr>))"
    using m stored by (rule handle_error_invalidate)
  finally show ?thesis
    by (simp add: early_invalidated_page_def connected_page_fields)
qed

lemma early_invalidated_page_fields:
  "renders early_invalidated_page = 1"
  "\<not> hasUpdated early_invalidated_page"
  "\<not> isUpdatePending early_invalidated_page"
  "renderRoot early_invalidated_page"
  "posted early_invalidated_page = []"
  "props early_invalidated_page = example_config"
  "map_option contentWindow (iframe early_invalidated_page) = Some True"
  "map_option src (iframe early_invalidated_page) = Some (getIframeSrc early_invalidated_page)"
proof -
  let ?cleared = "console_warn (formatError ''Bad credentials'' @ '' Session has been cleared.'')
          (connected_page\<lparr>localStorage := (localStorage connected_page)(GISCUS_SESSION_KEY := None),
                           session := JString []\<rparr>)"
  have root: "renderRoot ?cleared" and none: "iframe ?cleared = None"
    by (simp_all add: console_fields connected_page_fields)
  show "renders early_invalidated_page = 1"
    "\<not> hasUpdated early_invalidated_page"
    "\<not> isUpdatePending early_invalidated_page"
    "renderRoot early_invalidated_page"
    "posted early_invalidated_page = []"
    "props early_invalidated_page = example_config"
    unfolding early_invalidated_page_eq
    by (simp_all add: update_fields update_rooted(2) [OF root] console_fields
        connected_page_fields)
  show "map_option contentWindow (iframe early_invalidated_page) = Some True"
    unfolding early_invalidated_page_eq update_creates [OF root none]
    by (simp add: console_fields connected_page_fields)
  show "map_option src (iframe early_invalidated_page) = Some (getIframeSrc early_invalidated_page)"
    unfolding early_invalidated_page_eq
    by (simp add: update_rooted(3) [OF root] getIframeSrc_update)
qed

text \<open>
  The claim C3 as it is written fails in two reachable states. After the element has left
  the document it has rendered, but the optional chaining in \<^verbatim>\<open>sendMessage\<close> posts
  nothing when a configuration is written. And when a message on the invalidation path is
  handled before the element's first scheduled update, the handler renders the frame
  itself and the scheduled update is skipped: the frame is there with its window, but
  \<open>hasUpdated\<close> is not set, so writing a configuration posts nothing and schedules an
  update, which renders the template again with a new address.
\<close>

theorem config_change_counterexample:
  "reachable JSON_parse_string (step Disconnect rendered_page)
   \<and> hasUpdated (step Disconnect rendered_page)
   \<and> iframe (step Disconnect rendered_page) \<noteq> None
   \<and> posted (step Disconnect rendered_page) = []
   \<and> posted (step (SetProps (example_config\<lparr>theme := ''light''\<rparr>))
               (step Disconnect rendered_page)) = []
   \<and> reachable JSON_parse_string early_invalidated_page
   \<and> \<not> hasUpdated early_invalidated_page
   \<and> renders early_invalidated_page = 1
   \<and> map_option contentWindow (iframe early_invalidated_page) = Some True
   \<and> posted (step (SetProps (example_config\<lparr>theme := ''light''\<rparr>)) early_invalidated_page) = []
   \<and> renders (step PerformUpdate
                (step (SetProps (example_config\<lparr>theme := ''light''\<rparr>)) early_invalidated_page)) = 2
   \<and> map_option src (iframe (step PerformUpdate
                (step (SetProps (example_config\<lparr>theme := ''light''\<rparr>)) early_invalidated_page)))
       \<noteq> map_option src (iframe early_invalidated_page)"
proof -
  let ?c = "example_config\<lparr>theme := ''light''\<rparr>"
  let ?s2 = "early_invalidated_page\<lparr>props := ?c, isUpdatePending := True\<rparr>"
  have d: "reachable JSON_parse_string (step Disconnect rendered_page)"
    using rendered_page_reachable by (rule reachable.stepped)
  have detached: "hasUpdated (step Disconnect rendered_page)"
    "iframe (step Disconnect rendered_page) \<noteq> None"
    "posted (step Disconnect rendered_page) = []"
    "posted (step (SetProps ?c) (step Disconnect rendered_page)) = []"
    by (simp_all add: disconnectedCallback_def detach_def rendered_page_fields
        requestUpdate_def updateConfig_def sendMessage_def)
  have "fresh example_page" by (simp add: fresh_def example_page_def)
  then have "reachable JSON_parse_string constructed_page"
    unfolding constructed_page_def by (rule reachable.constructed)
  then have "reachable JSON_parse_string (step Connect constructed_page)"
    by (rule reachable.stepped)
  then have "reachable JSON_parse_string
      (step (Message bad_credentials_event) (step Connect constructed_page))"
    by (rule reachable.stepped)
  then have early: "reachable JSON_parse_string early_invalidated_page"
    by (simp only: early_invalidated_page_def connected_page_def)
  have s2: "step (SetProps ?c) early_invalidated_page = ?s2"
    by (simp add: requestUpdate_def super_requestUpdate_def early_invalidated_page_fields)
  have quiet: "posted (step (SetProps ?c) early_invalidated_page) = []"
    unfolding s2 by (simp add: early_invalidated_page_fields)
  have root: "renderRoot ?s2" and pending: "isUpdatePending ?s2"
    by (simp_all add: early_invalidated_page_fields)
  have "step PerformUpdate (step (SetProps ?c) early_invalidated_page) = performUpdate ?s2"
    unfolding s2 by simp
  also have "\<dots> = (final_state (update ?s2))\<lparr>hasUpdated := True\<rparr>"
    using pending root by (rule performUpdate_rooted)
  finally have s3: "step PerformUpdate (step (SetProps ?c) early_invalidated_page)
      = (final_state (update ?s2))\<lparr>hasUpdated := True\<rparr>" .
  have again: "renders (step PerformUpdate (step (SetProps ?c) early_invalidated_page)) = 2"
    unfolding s3 by (simp add: update_rooted(2) [OF root] early_invalidated_page_fields)
  have src3: "map_option src (iframe (step PerformUpdate (step (SetProps ?c) early_invalidated_page)))
      = Some (getIframeSrc ?s2)"
    unfolding s3 by (simp add: update_rooted(3) [OF root])
  have differ: "getIframeSrc ?s2 \<noteq> getIframeSrc early_invalidated_page"
  proof
    assume eq: "getIframeSrc ?s2 = getIframeSrc early_invalidated_page"
    have "lang (props ?s2) = lang (props early_invalidated_page)"
      by (simp add: early_invalidated_page_fields example_config_def)
    from getIframeSrc_params [OF this eq]
    have "map_of (iframe_params ?s2) ''theme'' = map_of (iframe_params early_invalidated_page) ''theme''"
      by simp
    then show False
      by (simp add: iframe_params_def Let_def early_invalidated_page_fields example_config_def)
  qed
  have moved: "map_option src (iframe (step PerformUpdate (step (SetProps ?c) early_invalidated_page)))
       \<noteq> map_option src (iframe early_invalidated_page)"
    unfolding src3 early_invalidated_page_fields(8) using differ by simp
  from d detached early early_invalidated_page_fields(1,2,7) quiet again moved
  show ?thesis by blast
qed

end
